theory Spec2Isabelle
  imports Complex_Main
begin

section \<open>JavaScript values used by the models and routes\<close>

text \<open>
  A JavaScript string is modelled as the list of its code units, restricted to the
  range a \<^typ>\<open>char\<close> holds (ASCII and Latin-1); \<open>length\<close> is the string's
  \<open>.length\<close>. An absent property (\<open>undefined\<close>) is \<open>None\<close>. A stored document
  that holds \<open>null\<close> reads like one that leaves the path out wherever the routes test
  truthiness or read through \<open>?.\<close>, and differs where noted; requests and constructor
  arguments with an explicit \<open>null\<close> are not among the inputs described here.
  An ObjectId is identified with its hexadecimal rendering, which \<open>toString\<close> returns.
\<close>

datatype ObjectId = ObjectId (toString: string)

text \<open>
  The datastore casts a string of a request to an ObjectId where a filter compares it with
  an ObjectId path. The cast is a parameter: \<open>Inr\<close> the ObjectId the string denotes,
  \<open>Inl\<close> the message of the cast error that the query throws for a string that denotes
  none.
\<close>

type_synonym cast = "string \<Rightarrow> string + ObjectId"

text \<open>Truthiness of an optional string: \<open>undefined\<close>, \<open>null\<close> and \<open>""\<close> are falsy.\<close>

definition truthy :: "string option \<Rightarrow> bool" where
  "truthy s = (case s of None \<Rightarrow> False | Some x \<Rightarrow> x \<noteq> [])"

text \<open>\<open>a || b\<close> on optional strings: the first operand when it is truthy, else the second.\<close>

definition js_or :: "string option \<Rightarrow> string option \<Rightarrow> string option" where
  "js_or a b = (if truthy a then a else b)"

text \<open>\<open>a || "literal"\<close>: the chain ends in a string literal, so the result is a string.\<close>

definition or_else :: "string option \<Rightarrow> string \<Rightarrow> string" where
  "or_else a d = (case a of None \<Rightarrow> d | Some x \<Rightarrow> if x = [] then d else x)"

text \<open>
  The white space that \<open>String.prototype.trim\<close> strips, within the range of
  \<^typ>\<open>char\<close>: tab, line feed, vertical tab, form feed, carriage return, space and
  the no-break space.
\<close>

definition isWhiteSpace :: "char \<Rightarrow> bool" where
  "isWhiteSpace c = (c \<in> set [CHR 0x09, CHR 0x0A, CHR 0x0B, CHR 0x0C, CHR 0x0D, CHR 0x20, CHR 0xA0])"

definition trim :: "string \<Rightarrow> string" where
  "trim s = rev (dropWhile isWhiteSpace (rev (dropWhile isWhiteSpace s)))"

text \<open>\<open>s.includes(t)\<close>: \<open>t\<close> occurs in \<open>s\<close> as a contiguous, case-sensitive substring.\<close>

fun js_includes :: "string \<Rightarrow> string \<Rightarrow> bool" where
  "js_includes [] t = (t = [])"
| "js_includes (c # cs) t = (take (length t) (c # cs) = t \<or> js_includes cs t)"


section \<open>The Booking model (src/models/Booking.js)\<close>

text \<open>
  The schema's paths that carry a validator, a default, a setter, or that the virtuals
  read. A path holds a value of its own type (an ObjectId, a date in milliseconds since
  the epoch, a duration in whole minutes, a string, a boolean) or is left out
  (\<open>None\<close>): the record is the argument of the constructor as far as it needs no
  cast. An argument that gives a path \<open>null\<close>, or a value that the path's type cannot
  be cast from, is not a value of the record, and neither are the remaining paths of the
  schema (embedded client and vehicle info, actors and time stamps of the lifecycle, cross
  references), which carry no validator.
\<close>

record booking =
  clientId :: "ObjectId option"
  garageId :: "ObjectId option"
  vehicleId :: "ObjectId option"
  serviceType :: "string option"
  scheduledDate :: "int option"
  duration :: "int option"
  status :: "string option"
  b_notes :: "string option"
  garageNotes :: "string option"
  source :: "string option"
  b_isActive :: "bool option"

definition serviceTypes :: "string list" where
  "serviceTypes = [''inspection'', ''repair'', ''maintenance'', ''diagnostic'']"

definition statuses :: "string list" where
  "statuses = [''pending'', ''confirmed'', ''in_progress'', ''completed'', ''cancelled'']"

definition sources :: "string list" where
  "sources = [''app'', ''public_booking'', ''walk_in'']"

text \<open>A path's \<open>default\<close> is taken when the constructor is given no value for it.\<close>

definition with_default :: "'a \<Rightarrow> 'a option \<Rightarrow> 'a option" where
  "with_default d x = (case x of None \<Rightarrow> Some d | Some y \<Rightarrow> Some y)"

text \<open>
  \<open>new Booking(obj)\<close>: the setters (\<open>trim: true\<close> on \<open>notes\<close> and \<open>garageNotes\<close>)
  run on the values given, and the defaults fill the paths left out.
\<close>

definition new_Booking :: "booking \<Rightarrow> booking" where
  "new_Booking obj = obj
     \<lparr> duration := with_default 60 (duration obj),
       status := with_default ''pending'' (status obj),
       b_notes := map_option trim (b_notes obj),
       garageNotes := map_option trim (garageNotes obj),
       source := with_default ''app'' (source obj),
       b_isActive := with_default True (b_isActive obj) \<rparr>"

text \<open>The validators of the schema; a failure is reported with its path.\<close>

datatype validator = Required | Min | MaxLength | Enum

definition required_id :: "string \<Rightarrow> 'a option \<Rightarrow> (string \<times> validator) list" where
  "required_id path x = (case x of None \<Rightarrow> [(path, Required)] | Some _ \<Rightarrow> [])"

text \<open>
  On a String path \<open>required\<close> also refuses the empty string; \<open>enum\<close> lets an absent
  value through and refuses every string outside the list.
\<close>

definition enum_of :: "string \<Rightarrow> string list \<Rightarrow> string option \<Rightarrow> (string \<times> validator) list" where
  "enum_of path values x =
     (case x of None \<Rightarrow> [] | Some s \<Rightarrow> if s \<in> set values then [] else [(path, Enum)])"

definition required_enum :: "string \<Rightarrow> string list \<Rightarrow> string option \<Rightarrow> (string \<times> validator) list" where
  "required_enum path values x =
     (if truthy x then enum_of path values x else [(path, Required)])"

definition required_min :: "string \<Rightarrow> int \<Rightarrow> int option \<Rightarrow> (string \<times> validator) list" where
  "required_min path m x =
     (case x of None \<Rightarrow> [(path, Required)]
      | Some d \<Rightarrow> if d < m then [(path, Min)] else [])"

definition maxLength :: "string \<Rightarrow> nat \<Rightarrow> string option \<Rightarrow> (string \<times> validator) list" where
  "maxLength path n x =
     (case x of None \<Rightarrow> []
      | Some s \<Rightarrow> if n < length s then [(path, MaxLength)] else [])"

text \<open>
  \<open>doc.validate()\<close>: the failing paths, each with the validator that fails. The order of
  the list carries no meaning.
\<close>

definition validate :: "booking \<Rightarrow> (string \<times> validator) list" where
  "validate doc =
     required_id ''garageId'' (garageId doc) @
     required_enum ''serviceType'' serviceTypes (serviceType doc) @
     required_id ''scheduledDate'' (scheduledDate doc) @
     required_min ''duration'' 15 (duration doc) @
     enum_of ''status'' statuses (status doc) @
     maxLength ''notes'' 1000 (b_notes doc) @
     maxLength ''garageNotes'' 1000 (garageNotes doc) @
     enum_of ''source'' sources (source doc)"

text \<open>A booking is rejected when validation reports a failure, accepted otherwise.\<close>

definition accepted :: "booking \<Rightarrow> bool" where
  "accepted obj = (validate (new_Booking obj) = [])"

text \<open>
  The virtuals. \<open>new Date()\<close> is the parameter \<open>now\<close>; a comparison with an absent
  date is false. (A date of \<open>null\<close>, which the record does not hold, would compare as
  the number 0.)
\<close>

definition isUpcoming :: "int \<Rightarrow> booking \<Rightarrow> bool" where
  "isUpcoming now doc =
     ((case scheduledDate doc of None \<Rightarrow> False | Some d \<Rightarrow> d > now)
      \<and> status doc \<noteq> Some ''cancelled'')"

definition isPast :: "int \<Rightarrow> booking \<Rightarrow> bool" where
  "isPast now doc = (case scheduledDate doc of None \<Rightarrow> False | Some d \<Rightarrow> d < now)"

text \<open>A walk-in repair booking that leaves every optional path out.\<close>

definition walk_in :: booking where
  "walk_in = \<lparr> clientId = None, garageId = Some (ObjectId ''64b000000000000000000001''),
     vehicleId = None, serviceType = Some ''repair'', scheduledDate = Some 1700000000000,
     duration = None, status = None, b_notes = None, garageNotes = None, source = None,
     b_isActive = None \<rparr>"


section \<open>The documents the vehicle routes read and write\<close>

text \<open>
  The Vehicle, User and AuditLog models are required by src/routes/vehicles.js; the records
  hold the paths the routes read or write.
\<close>

record ownerInfo =
  oi_name :: "string option"
  oi_email :: "string option"
  oi_phone :: "string option"

record vehicle =
  v_id :: ObjectId
  ownerUserId :: "ObjectId option"
  orgId :: "ObjectId option"
  ownerInfo :: "ownerInfo option"
  v_make :: "string option"
  v_model :: "string option"
  v_year :: "int option"
  v_plate :: "string option"
  v_color :: "string option"
  v_isActive :: bool
  imageUrl :: "string option"
  createdAt :: int

record profile =
  pr_name :: "string option"
  pr_phone :: "string option"

record user =
  u_id :: ObjectId
  u_email :: "string option"
  u_profile :: "profile option"
  u_isActive :: bool

record audit =
  a_actorId :: ObjectId
  a_orgId :: "ObjectId option"
  a_action :: string
  a_target_type :: string
  a_target_id :: "string option"
  a_target_make :: "string option"
  a_target_model :: "string option"
  a_target_year :: "string option"
  a_meta_imageUrl :: string
  a_meta_provider :: string

record store =
  vehicles :: "vehicle list"
  users :: "user list"
  auditLog :: "audit list"

text \<open>The authenticated principal: \<open>req.user._id\<close> and \<open>req.user.orgId\<close>.\<close>

record principal =
  p_id :: ObjectId
  p_orgId :: "ObjectId option"

text \<open>
  A reply is the JSON body of a success, or a status code with a problem body
  \<open>{type, title, detail, instance?}\<close>.
\<close>

record problem =
  e_type :: string
  e_title :: string
  e_detail :: string
  e_instance :: "string option"

datatype 'a response = Json 'a | Error nat problem


section \<open>Filters of the datastore\<close>

text \<open>
  The filter objects the routes build. A clause \<open>{path: value}\<close> that is present holds
  \<open>Some value\<close>; the value itself may be absent (\<open>undefined\<close>), which the datastore
  matches against an absent or null path. \<open>q_or\<close> is
  \<open>$or: [{ownerUserId: _}, {orgId: _}]\<close>, \<open>q_and\<close> the list \<open>$and\<close> of search clauses,
  each the pattern of its four regular-expression tests.
\<close>

record query =
  q_id :: "ObjectId option option"
  q_or :: "(ObjectId option \<times> ObjectId option) option"
  q_isActive :: "bool option"
  q_ownerUserId :: "ObjectId option option"
  q_orgId :: "ObjectId option option"
  q_and :: "string list"

definition no_filter :: query where
  "no_filter = \<lparr> q_id = None, q_or = None, q_isActive = None, q_ownerUserId = None,
     q_orgId = None, q_and = [] \<rparr>"

definition eq_clause :: "'a option option \<Rightarrow> 'a option \<Rightarrow> bool" where
  "eq_clause c field = (case c of None \<Rightarrow> True | Some x \<Rightarrow> field = x)"

text \<open>The equality clauses of a filter, all of which a matching document satisfies.\<close>

definition matches :: "query \<Rightarrow> vehicle \<Rightarrow> bool" where
  "matches q v =
     (eq_clause (q_id q) (Some (v_id v))
      \<and> (case q_or q of None \<Rightarrow> True
          | Some (u, g) \<Rightarrow> ownerUserId v = u \<or> orgId v = g)
      \<and> (case q_isActive q of None \<Rightarrow> True | Some a \<Rightarrow> v_isActive v = a)
      \<and> eq_clause (q_ownerUserId q) (ownerUserId v)
      \<and> eq_clause (q_orgId q) (orgId v))"

text \<open>
  The datastore's regular expressions are a parameter: \<open>rx pattern\<close> is \<open>None\<close> when
  the datastore refuses the pattern, and otherwise the case-insensitive test of a string
  against it. A test on an absent path fails.
\<close>

type_synonym regex = "string \<Rightarrow> (string \<Rightarrow> bool) option"

definition regex_test :: "regex \<Rightarrow> string \<Rightarrow> string option \<Rightarrow> bool" where
  "regex_test rx pat field =
     (case (rx pat, field) of (Some t, Some x) \<Rightarrow> t x | _ \<Rightarrow> False)"

definition search_clause :: "regex \<Rightarrow> vehicle \<Rightarrow> string \<Rightarrow> bool" where
  "search_clause rx v pat =
     (regex_test rx pat (v_plate v) \<or> regex_test rx pat (v_make v) \<or> regex_test rx pat (v_model v)
      \<or> regex_test rx pat (case ownerInfo v of None \<Rightarrow> None | Some i \<Rightarrow> oi_name i))"

definition matches_rx :: "regex \<Rightarrow> query \<Rightarrow> vehicle \<Rightarrow> bool" where
  "matches_rx rx q v = (matches q v \<and> list_all (search_clause rx v) (q_and q))"

definition Vehicle_find :: "(vehicle \<Rightarrow> bool) \<Rightarrow> vehicle list \<Rightarrow> vehicle list" where
  "Vehicle_find f vs = filter f vs"

definition Vehicle_findOne :: "(vehicle \<Rightarrow> bool) \<Rightarrow> vehicle list \<Rightarrow> vehicle option" where
  "Vehicle_findOne f vs = List.find f vs"

definition Vehicle_countDocuments :: "(vehicle \<Rightarrow> bool) \<Rightarrow> vehicle list \<Rightarrow> nat" where
  "Vehicle_countDocuments f vs = length (filter f vs)"

text \<open>\<open>vehicle.save()\<close> writes the document back under its \<open>_id\<close>.\<close>

definition Vehicle_save :: "vehicle \<Rightarrow> vehicle list \<Rightarrow> vehicle list" where
  "Vehicle_save v vs = map (\<lambda>w. if v_id w = v_id v then v else w) vs"

text \<open>
  \<open>populate("ownerUserId", ...)\<close> replaces the reference by the user document it names,
  or by null when there is none.
\<close>

definition populate :: "user list \<Rightarrow> vehicle \<Rightarrow> vehicle \<times> user option" where
  "populate us v =
     (v, case ownerUserId v of None \<Rightarrow> None | Some i \<Rightarrow> List.find (\<lambda>u. u_id u = i) us)"

text \<open>The principal's access filter, \<open>$or: [{ownerUserId: userId}, {orgId: orgId}]\<close>.\<close>

definition access :: "principal \<Rightarrow> query" where
  "access p = no_filter \<lparr> q_or := Some (Some (p_id p), p_orgId p) \<rparr>"


section \<open>POST /vehicles/generate-image\<close>

text \<open>
  The request body. The validators read each field through its string rendering, an
  absent field as the empty string.
\<close>

record gen_body =
  req_vehicleId :: "string option"
  req_make :: "string option"
  req_model :: "string option"
  req_year :: "string option"
  req_color :: "string option"

definition notEmpty :: "string option \<Rightarrow> bool" where
  "notEmpty x = (case x of None \<Rightarrow> False | Some s \<Rightarrow> s \<noteq> [])"

definition isDigit :: "char \<Rightarrow> bool" where
  "isDigit c = (48 \<le> (of_char c :: nat) \<and> (of_char c :: nat) \<le> 57)"

text \<open>\<open>isNumeric\<close> accepts \<open>^[+-]?([0-9]*[.])?[0-9]+$\<close>.\<close>

definition isNumeric :: "string option \<Rightarrow> bool" where
  "isNumeric x =
     (case x of None \<Rightarrow> False
      | Some s \<Rightarrow>
          (let r = (case s of [] \<Rightarrow> []
                    | c # cs \<Rightarrow> if c = CHR ''+'' \<or> c = CHR ''-'' then cs else s);
               rest = dropWhile isDigit r
           in case rest of
                [] \<Rightarrow> r \<noteq> []
              | c # ds \<Rightarrow> c = CHR ''.'' \<and> ds \<noteq> [] \<and> list_all isDigit ds))"

text \<open>\<open>validationResult(req).array()\<close>: the messages of the failing chains, in order.\<close>

definition validationResult :: "gen_body \<Rightarrow> string list" where
  "validationResult b =
     (if notEmpty (req_vehicleId b) then [] else [''Vehicle ID is required'']) @
     (if notEmpty (req_make b) then [] else [''Make is required'']) @
     (if notEmpty (req_model b) then [] else [''Model is required'']) @
     (if isNumeric (req_year b) then [] else [''Year must be a number''])"

text \<open>
  The image provider is a parameter: given \<open>{make, model, year, color}\<close> it returns the
  image URL (\<open>Inr\<close>) or throws an error, of which the handler reads the message
  (\<open>Inl\<close>).
\<close>

record gen_request =
  g_make :: "string option"
  g_model :: "string option"
  g_year :: "string option"
  g_color :: string

type_synonym provider = "gen_request \<Rightarrow> string + string"

record gen_data =
  d_vehicleId :: ObjectId
  d_imageUrl :: "string option"

definition validation_error :: "string \<Rightarrow> problem" where
  "validation_error msg =
     \<lparr> e_type = ''validation_error'', e_title = ''Validation Error'', e_detail = msg,
       e_instance = Some ''/api/v1/vehicles/generate-image'' \<rparr>"

definition vehicle_not_found :: "string \<Rightarrow> problem" where
  "vehicle_not_found inst =
     \<lparr> e_type = ''vehicle_not_found'', e_title = ''Vehicle Not Found'',
       e_detail = ''Vehicle not found or you don't have access to it'',
       e_instance = Some inst \<rparr>"

definition rate_limit_error :: problem where
  "rate_limit_error =
     \<lparr> e_type = ''rate_limit_error'', e_title = ''Rate Limit Exceeded'',
       e_detail = ''AI image generation quota exceeded. Please try again later.'',
       e_instance = Some ''/api/v1/vehicles/generate-image'' \<rparr>"

definition internal_error :: "string \<Rightarrow> problem" where
  "internal_error msg =
     \<lparr> e_type = ''internal_error'', e_title = ''Internal Server Error'', e_detail = msg,
       e_instance = None \<rparr>"

text \<open>The catch block of the handler, on the message of the error caught.\<close>

definition generate_image_catch :: "string \<Rightarrow> gen_data response" where
  "generate_image_catch message =
     (if js_includes message ''quota'' \<or> js_includes message ''rate limit''
      then Error 429 rate_limit_error
      else Error 500 (internal_error ''Failed to generate vehicle image''))"

text \<open>
  The value of \<open>_id\<close> in the filter of \<open>findOne\<close>, cast when the query runs: an absent
  \<open>vehicleId\<close> needs no cast and matches no document.
\<close>

definition cast_id :: "cast \<Rightarrow> string option \<Rightarrow> string + ObjectId option" where
  "cast_id cast x =
     (case x of None \<Rightarrow> Inr None
      | Some s \<Rightarrow> (case cast s of Inl message \<Rightarrow> Inl message | Inr i \<Rightarrow> Inr (Some i)))"

text \<open>
  The handler. An error thrown inside its \<open>try\<close>, by the query's cast or by the provider,
  is caught by the one catch block.
\<close>

definition generate_image ::
  "cast \<Rightarrow> provider \<Rightarrow> principal \<Rightarrow> gen_body \<Rightarrow> store \<Rightarrow> gen_data response \<times> store" where
  "generate_image cast generateVehicleImage p b st =
     (case validationResult b of
        msg # _ \<Rightarrow> (Error 400 (validation_error msg), st)
      | [] \<Rightarrow>
         (case cast_id cast (req_vehicleId b) of
            Inl message \<Rightarrow> (generate_image_catch message, st)
          | Inr i \<Rightarrow>
         (case Vehicle_findOne (matches (access p \<lparr> q_id := Some i \<rparr>)) (vehicles st) of
            None \<Rightarrow> (Error 404 (vehicle_not_found ''/api/v1/vehicles/generate-image''), st)
          | Some vehicle \<Rightarrow>
             (case generateVehicleImage
                     \<lparr> g_make = req_make b, g_model = req_model b, g_year = req_year b,
                       g_color = or_else (js_or (req_color b) (v_color vehicle)) ''silver'' \<rparr> of
                Inl message \<Rightarrow> (generate_image_catch message, st)
              | Inr url \<Rightarrow>
                 (let vehicle' = vehicle \<lparr> imageUrl := Some url \<rparr>;
                      st1 = st \<lparr> vehicles := Vehicle_save vehicle' (vehicles st) \<rparr>;
                      st2 = st1 \<lparr> auditLog := auditLog st1 @
                        [\<lparr> a_actorId = p_id p, a_orgId = p_orgId p,
                           a_action = ''vehicle_image_generated'',
                           a_target_type = ''vehicle'', a_target_id = req_vehicleId b,
                           a_target_make = req_make b, a_target_model = req_model b,
                           a_target_year = req_year b,
                           a_meta_imageUrl = url, a_meta_provider = ''openai-dalle'' \<rparr>] \<rparr>
                  in (Json \<lparr> d_vehicleId = v_id vehicle', d_imageUrl = imageUrl vehicle' \<rparr>,
                      st2))))))"


section \<open>GET /vehicles/metrics\<close>

text \<open>\<open>new Set(xs)\<close> keeps the first occurrence of each element, in insertion order.\<close>

fun Set_add :: "'a list \<Rightarrow> 'a \<Rightarrow> 'a list" where
  "Set_add s x = (if x \<in> set s then s else s @ [x])"

definition new_Set :: "'a list \<Rightarrow> 'a list" where
  "new_Set xs = foldl Set_add [] xs"

text \<open>\<open>xs.filter(Boolean)\<close> on optional strings drops the falsy ones.\<close>

definition filter_Boolean :: "string option list \<Rightarrow> string list" where
  "filter_Boolean xs =
     concat (map (\<lambda>x. case x of None \<Rightarrow> [] | Some s \<Rightarrow> if s = [] then [] else [s]) xs)"

text \<open>\<open>User.countDocuments({_id: {$in: ids}, isActive: true})\<close>.\<close>

definition User_countDocuments_in_active :: "string list \<Rightarrow> user list \<Rightarrow> nat" where
  "User_countDocuments_in_active ids us =
     length (filter (\<lambda>u. toString (u_id u) \<in> set ids \<and> u_isActive u) us)"

record metrics_data =
  totalUsers :: nat
  totalCars :: nat
  activeUsers :: nat
  changePercentage :: rat

text \<open>The active vehicle count of the handler, \<open>{...query, isActive: true}\<close>.\<close>

definition activeCars_of :: "principal \<Rightarrow> store \<Rightarrow> nat" where
  "activeCars_of p st =
     Vehicle_countDocuments (matches (access p \<lparr> q_isActive := Some True \<rparr>)) (vehicles st)"

definition uniqueUsers_of :: "principal \<Rightarrow> store \<Rightarrow> string list" where
  "uniqueUsers_of p st =
     new_Set (filter_Boolean
       (map (\<lambda>v. map_option toString (ownerUserId v))
            (Vehicle_find (matches (access p)) (vehicles st))))"

definition metrics :: "principal \<Rightarrow> store \<Rightarrow> metrics_data response" where
  "metrics p st =
     (let query = access p;
          totalCars = Vehicle_countDocuments (matches query) (vehicles st);
          activeCars = activeCars_of p st;
          uniqueUsers = uniqueUsers_of p st;
          totalUsers = length uniqueUsers;
          activeUserIds = uniqueUsers;
          activeUsers = User_countDocuments_in_active activeUserIds (users st)
      in Json \<lparr> totalUsers = totalUsers, totalCars = totalCars, activeUsers = activeUsers,
                changePercentage = 46 / 10 \<rparr>)"

section \<open>GET /vehicles/clients\<close>

record client =
  c_id :: string
  c_name :: string
  c_email :: string
  c_phone :: string
  c_type :: string

text \<open>
  A JavaScript \<open>Map\<close> with string keys: the entries in insertion order. \<open>set\<close> on a
  key that is present replaces its value in place, on a new key appends the entry.
\<close>

type_synonym 'v js_map = "(string \<times> 'v) list"

definition Map_has :: "string \<Rightarrow> 'v js_map \<Rightarrow> bool" where
  "Map_has k m = (k \<in> set (map fst m))"

fun Map_set :: "string \<Rightarrow> 'v \<Rightarrow> 'v js_map \<Rightarrow> 'v js_map" where
  "Map_set k v [] = [(k, v)]"
| "Map_set k v (e # m) = (if fst e = k then (k, v) # m else e # Map_set k v m)"

definition Map_values :: "'v js_map \<Rightarrow> 'v list" where
  "Map_values m = map snd m"

text \<open>
  A template literal renders an absent value as \<open>undefined\<close>. (It renders \<open>null\<close>
  as \<open>null\<close>: a document that stores \<open>null\<close> for a value rendered this way is
  not among the documents described here.)
\<close>

definition template :: "string option \<Rightarrow> string" where
  "template x = (case x of None \<Rightarrow> ''undefined'' | Some s \<Rightarrow> s)"

text \<open>
  The body of the \<open>forEach\<close> over the populated vehicles; \<open>owner\<close> is the populated
  \<open>vehicle.ownerUserId\<close>.
\<close>

definition add_client :: "client js_map \<Rightarrow> vehicle \<times> user option \<Rightarrow> client js_map" where
  "add_client clientsMap pv =
     (case snd pv of
        Some owner \<Rightarrow>
          (let userId = toString (u_id owner) in
           if \<not> Map_has userId clientsMap
           then Map_set userId
                  \<lparr> c_id = userId,
                    c_name = or_else (case u_profile owner of None \<Rightarrow> None | Some pr \<Rightarrow> pr_name pr)
                               ''Unknown'',
                    c_email = or_else (u_email owner) [],
                    c_phone = or_else (case u_profile owner of None \<Rightarrow> None | Some pr \<Rightarrow> pr_phone pr)
                                [],
                    c_type = ''registered'' \<rparr> clientsMap
           else clientsMap)
      | None \<Rightarrow>
          (case ownerInfo (fst pv) of
             None \<Rightarrow> clientsMap
           | Some info \<Rightarrow>
               if truthy (oi_name info)
               then (let key = ''info_'' @ template (js_or (oi_phone info) (oi_email info)) in
                     if \<not> Map_has key clientsMap
                     then Map_set key
                            \<lparr> c_id = key, c_name = template (oi_name info),
                              c_email = or_else (oi_email info) [],
                              c_phone = or_else (oi_phone info) [],
                              c_type = ''embedded'' \<rparr> clientsMap
                     else clientsMap)
               else clientsMap))"

definition bad_request :: problem where
  "bad_request =
     \<lparr> e_type = ''bad_request'', e_title = ''Bad Request'',
       e_detail = ''Organization ID required'', e_instance = None \<rparr>"

text \<open>The vehicles the roster is built from: the organization's active ones, populated.\<close>

definition org_vehicles :: "ObjectId \<Rightarrow> store \<Rightarrow> (vehicle \<times> user option) list" where
  "org_vehicles org st =
     map (populate (users st))
       (Vehicle_find (matches (no_filter \<lparr> q_orgId := Some (Some org), q_isActive := Some True \<rparr>))
          (vehicles st))"

text \<open>The reply carries \<open>data\<close> and \<open>total\<close>.\<close>

definition clients :: "principal \<Rightarrow> store \<Rightarrow> (client list \<times> nat) response" where
  "clients p st =
     (case p_orgId p of
        None \<Rightarrow> Error 400 bad_request
      | Some org \<Rightarrow>
          (let populated = org_vehicles org st;
               clientsMap = foldl add_client [] populated;
               roster = Map_values clientsMap
           in Json (roster, length roster)))"


section \<open>GET /vehicles/:vehicleId\<close>

text \<open>
  The path parameter is cast when the query runs; the cast error of a parameter that
  denotes no ObjectId is caught by the handler's catch block.
\<close>

definition get_vehicle :: "cast \<Rightarrow> principal \<Rightarrow> string \<Rightarrow> store \<Rightarrow> vehicle response" where
  "get_vehicle cast p vid st =
     (case cast vid of
        Inl message \<Rightarrow> Error 500 (internal_error ''Failed to retrieve vehicle'')
      | Inr i \<Rightarrow>
         (case Vehicle_findOne (matches (access p \<lparr> q_id := Some (Some i) \<rparr>)) (vehicles st) of
            None \<Rightarrow> Error 404 (vehicle_not_found ''/api/v1/vehicles/:vehicleId'')
          | Some vehicle \<Rightarrow> Json vehicle))"


section \<open>GET /vehicles\<close>

text \<open>
  A JavaScript number as far as the pagination needs it: \<open>Num n\<close> is the double whose
  value is the integer \<open>n\<close> (a zero of either sign for \<open>n = 0\<close>), \<open>Infinity\<close> an
  infinity of either sign, and \<open>NaN\<close>. The signs left out do not show in a JSON reply.
\<close>

datatype number = NaN | Infinity | Num int

text \<open>The number of binary digits of a positive integer.\<close>

function bitlength :: "int \<Rightarrow> nat" where
  "bitlength n = (if n \<le> 0 then 0 else Suc (bitlength (n div 2)))"
  by pat_completeness auto
termination
  by (relation "measure nat") auto

declare bitlength.simps [simp del]

text \<open>
  The number that an integer result becomes: itself below \<open>2^53\<close>, otherwise the nearest
  double, a tie going to the even significand of 53 bits, and \<open>Infinity\<close> beyond the
  range of the doubles.
\<close>

definition toNumber :: "int \<Rightarrow> number" where
  "toNumber n =
     (let m = \<bar>n\<bar> in
      if m < 2 ^ 53 then Num n
      else (let k = bitlength m - 53;
                q = m div 2 ^ k;
                r = m mod 2 ^ k;
                h = 2 ^ (k - 1);
                q' = (if h < r \<or> (r = h \<and> odd q) then q + 1 else q)
            in if 2 ^ 1024 \<le> q' * 2 ^ k then Infinity
               else Num (sgn n * (q' * 2 ^ k))))"

definition digitValue :: "char \<Rightarrow> nat option" where
  "digitValue c =
     (let n = (of_char c :: nat) in
      if 48 \<le> n \<and> n \<le> 57 then Some (n - 48)
      else if 97 \<le> n \<and> n \<le> 122 then Some (n - 87)
      else if 65 \<le> n \<and> n \<le> 90 then Some (n - 55)
      else None)"

definition isRadixDigit :: "nat \<Rightarrow> char \<Rightarrow> bool" where
  "isRadixDigit R c = (case digitValue c of None \<Rightarrow> False | Some d \<Rightarrow> d < R)"

definition digitsValue :: "nat \<Rightarrow> string \<Rightarrow> int" where
  "digitsValue R ds =
     foldl (\<lambda>acc c. acc * int R + (case digitValue c of None \<Rightarrow> 0 | Some d \<Rightarrow> int d)) 0 ds"

text \<open>
  \<open>parseInt(s)\<close> with no radix: leading white space is skipped, a sign is read, a prefix
  \<open>0x\<close> selects radix 16, and the longest run of digits is the integer read; the result
  is the number of that integer, and \<open>NaN\<close> when there is no digit.
\<close>

definition parseInt :: "string \<Rightarrow> number" where
  "parseInt s =
     (let s1 = dropWhile isWhiteSpace s;
          sign = (case s1 of [] \<Rightarrow> 1 | c # _ \<Rightarrow> if c = CHR ''-'' then - 1 else (1::int));
          s2 = (case s1 of [] \<Rightarrow> []
                | c # r \<Rightarrow> if c = CHR ''-'' \<or> c = CHR ''+'' then r else s1);
          hex = (take 2 s2 = ''0x'' \<or> take 2 s2 = ''0X'');
          R = (if hex then 16 else 10);
          s3 = (if hex then drop 2 s2 else s2);
          z = takeWhile (isRadixDigit R) s3
      in if z = [] then NaN else toNumber (sign * digitsValue R z))"

text \<open>
  The request's query string, each parameter given at most once, so that it is a string or
  absent; \<open>page\<close> and \<open>limit\<close> default to the numbers 1 and 10.
\<close>

record list_query =
  rq_page :: "string option"
  rq_limit :: "string option"
  rq_search :: "string option"
  rq_ownerId :: "string option"

definition page_of :: "list_query \<Rightarrow> number" where
  "page_of r = (case rq_page r of None \<Rightarrow> Num 1 | Some s \<Rightarrow> parseInt s)"

definition limit_of :: "list_query \<Rightarrow> number" where
  "limit_of r = (case rq_limit r of None \<Rightarrow> Num 10 | Some s \<Rightarrow> parseInt s)"

text \<open>\<open>x - 1\<close> and \<open>x * y\<close> on numbers: the exact result, rounded.\<close>

definition minus_one :: "number \<Rightarrow> number" where
  "minus_one x = (case x of Num a \<Rightarrow> toNumber (a - 1) | Infinity \<Rightarrow> Infinity | NaN \<Rightarrow> NaN)"

definition times :: "number \<Rightarrow> number \<Rightarrow> number" where
  "times x y =
     (case (x, y) of
        (Num a, Num b) \<Rightarrow> toNumber (a * b)
      | (Num a, Infinity) \<Rightarrow> if a = 0 then NaN else Infinity
      | (Infinity, Num b) \<Rightarrow> if b = 0 then NaN else Infinity
      | (Infinity, Infinity) \<Rightarrow> Infinity
      | _ \<Rightarrow> NaN)"

text \<open>\<open>(parseInt(page) - 1) * parseInt(limit)\<close>.\<close>

definition skip_of :: "number \<Rightarrow> number \<Rightarrow> number" where
  "skip_of pg lm = times (minus_one pg) lm"

text \<open>
  \<open>Math.ceil(total / parseInt(limit))\<close>, on the total of a collection (a count below
  \<open>2^53\<close>, for which the ceiling of the rounded quotient is the ceiling of the exact one).
\<close>

definition pages_of :: "nat \<Rightarrow> number \<Rightarrow> number" where
  "pages_of n lm =
     (case lm of
        Num b \<Rightarrow> if b = 0 then (if n = 0 then NaN else Infinity)
                  else Num (\<lceil>rat_of_nat n / rat_of_int b\<rceil>)
      | Infinity \<Rightarrow> Num 0
      | NaN \<Rightarrow> NaN)"

text \<open>
  The branch of the handler for a truthy \<open>ownerId\<close>, on the ObjectId the datastore casts
  it to: the owner clause is set, \<open>$or\<close> is deleted, and the organization clause is added
  when the caller has an organization.
\<close>

definition by_owner :: "principal \<Rightarrow> ObjectId \<Rightarrow> query \<Rightarrow> query" where
  "by_owner p i query =
     (let query = query \<lparr> q_ownerUserId := Some (Some i) \<rparr>;
          query = query \<lparr> q_or := None \<rparr>
      in if p_orgId p \<noteq> None then query \<lparr> q_orgId := Some (p_orgId p) \<rparr> else query)"

text \<open>
  The filter of the listing as the datastore reads it, built as the handler builds it: the
  access filter on the active vehicles; the branch above for a truthy \<open>ownerId\<close>; the
  clause of a truthy \<open>search\<close> pushed onto \<open>$and\<close>. It is \<open>Inl\<close> the message of the
  cast error when the \<open>ownerId\<close> denotes no ObjectId: the queries run on the filter then
  throw.
\<close>

definition list_filter :: "cast \<Rightarrow> principal \<Rightarrow> list_query \<Rightarrow> string + query" where
  "list_filter cast p r =
     (let query = access p \<lparr> q_isActive := Some True \<rparr>;
          push = (\<lambda>query. if truthy (rq_search r)
                          then query \<lparr> q_and := q_and query @ [template (rq_search r)] \<rparr>
                          else query)
      in if truthy (rq_ownerId r)
         then (case cast (template (rq_ownerId r)) of
                 Inl message \<Rightarrow> Inl message
               | Inr i \<Rightarrow> Inr (push (by_owner p i query)))
         else Inr (push query))"

text \<open>
  The cursor. \<open>sort({createdAt: -1})\<close> is a stable sort by descending creation time.
  \<open>skip\<close> and \<open>limit\<close> follow the datastore's contract: a value that is not an integer
  and a negative skip are refused, a limit of 0 is no limit, and a negative limit counts
  as its absolute value.
\<close>

definition sort_createdAt_desc :: "vehicle list \<Rightarrow> vehicle list" where
  "sort_createdAt_desc vs = sort_key (\<lambda>v. - createdAt v) vs"

definition skip_limit :: "number \<Rightarrow> number \<Rightarrow> 'a list \<Rightarrow> 'a list option" where
  "skip_limit sk lm xs =
     (case (sk, lm) of
        (Num a, Num b) \<Rightarrow>
          if a < 0 then None
          else Some (if b = 0 then drop (nat a) xs else take (nat \<bar>b\<bar>) (drop (nat a) xs))
      | _ \<Rightarrow> None)"

text \<open>The two shapes of an entry of \<open>data\<close>.\<close>

record form_item =
  f_id :: ObjectId
  f_make :: "string option"
  f_model :: "string option"
  f_year :: "int option"
  f_plate :: "string option"

record list_item =
  l_id :: ObjectId
  l_name :: string
  l_registrationNo :: string
  l_carType :: string
  l_email :: string
  l_status :: string
  l_vehicleId :: ObjectId
  l_ownerId :: "ObjectId option"

datatype item = Form form_item | Listed list_item

text \<open>The entry for the booking form; \<open>_id\<close> and \<open>id\<close> both hold \<open>f_id\<close>.\<close>

definition form_entry :: "vehicle \<times> user option \<Rightarrow> item" where
  "form_entry pv =
     (let vehicle = fst pv in
      Form \<lparr> f_id = v_id vehicle, f_make = v_make vehicle, f_model = v_model vehicle,
             f_year = v_year vehicle, f_plate = v_plate vehicle \<rparr>)"

definition list_entry :: "vehicle \<times> user option \<Rightarrow> item" where
  "list_entry pv =
     (let vehicle = fst pv; owner = snd pv in
      Listed
        \<lparr> l_id = v_id vehicle,
          l_name = or_else
                     (js_or (case ownerInfo vehicle of None \<Rightarrow> None | Some i \<Rightarrow> oi_name i)
                        (case owner of None \<Rightarrow> None
                         | Some u \<Rightarrow> (case u_profile u of None \<Rightarrow> None | Some pr \<Rightarrow> pr_name pr)))
                     ''N/A'',
          l_registrationNo = or_else (v_plate vehicle) ''N/A'',
          l_carType = or_else
                        (Some (trim (or_else (v_make vehicle) [] @ '' '' @ or_else (v_model vehicle) [])))
                        ''N/A'',
          l_email = or_else (case owner of None \<Rightarrow> None | Some u \<Rightarrow> u_email u) ''N/A'',
          l_status = (if v_isActive vehicle \<and> (case owner of None \<Rightarrow> False | Some u \<Rightarrow> u_isActive u)
                      then ''Active'' else ''Inactive''),
          l_vehicleId = v_id vehicle,
          l_ownerId = (case owner of None \<Rightarrow> None | Some u \<Rightarrow> Some (u_id u)) \<rparr>)"

record listing =
  r_data :: "item list"
  r_total :: nat
  r_page :: number
  r_limit :: number
  r_pages :: number

text \<open>
  The handler. Every failure of the query (a cast error, a pattern or a skip or limit the
  datastore refuses) is caught by the one catch block.
\<close>

definition list_vehicles ::
  "cast \<Rightarrow> regex \<Rightarrow> principal \<Rightarrow> list_query \<Rightarrow> store \<Rightarrow> listing response" where
  "list_vehicles cast rx p r st =
     (let skip = skip_of (page_of r) (limit_of r) in
      case list_filter cast p r of
        Inl message \<Rightarrow> Error 500 (internal_error ''Failed to retrieve vehicles'')
      | Inr query \<Rightarrow>
         if \<not> list_all (\<lambda>pat. rx pat \<noteq> None) (q_and query)
         then Error 500 (internal_error ''Failed to retrieve vehicles'')
         else
           (case skip_limit skip (limit_of r)
                   (sort_createdAt_desc (Vehicle_find (matches_rx rx query) (vehicles st))) of
              None \<Rightarrow> Error 500 (internal_error ''Failed to retrieve vehicles'')
            | Some found \<Rightarrow>
               (let populated = map (populate (users st)) found;
                    total = Vehicle_countDocuments (matches_rx rx query) (vehicles st);
                    responseData = (if truthy (rq_ownerId r) then map form_entry populated
                                    else map list_entry populated)
                in Json \<lparr> r_data = responseData, r_total = total, r_page = page_of r,
                          r_limit = limit_of r, r_pages = pages_of total (limit_of r) \<rparr>)))"

section \<open>Readings of the replies and sample data\<close>

text \<open>The vehicle an entry of the listing's \<open>data\<close> stands for.\<close>

definition item_id :: "item \<Rightarrow> ObjectId" where
  "item_id i = (case i of Form f \<Rightarrow> f_id f | Listed l \<Rightarrow> l_id l)"

text \<open>The entry with which the listing renders a populated vehicle.\<close>

definition entry_of :: "list_query \<Rightarrow> vehicle \<times> user option \<Rightarrow> item" where
  "entry_of r = (if truthy (rq_ownerId r) then form_entry else list_entry)"

text \<open>The principal's access condition: owner match or organization match.\<close>

definition owner_or_org :: "principal \<Rightarrow> vehicle \<Rightarrow> bool" where
  "owner_or_org p v = (ownerUserId v = Some (p_id p) \<or> orgId v = p_orgId p)"

text \<open>Sample identifiers, principals, vehicles and requests.\<close>

definition u1 :: ObjectId where "u1 = ObjectId ''650000000000000000000001''"
definition u2 :: ObjectId where "u2 = ObjectId ''650000000000000000000002''"
definition u3 :: ObjectId where "u3 = ObjectId ''65000000000000000000000b''"
definition g1 :: ObjectId where "g1 = ObjectId ''6500000000000000000000a1''"
definition g2 :: ObjectId where "g2 = ObjectId ''6500000000000000000000a2''"

definition alice :: principal where
  "alice = \<lparr> p_id = u1, p_orgId = Some g1 \<rparr>"

definition solo :: principal where
  "solo = \<lparr> p_id = u1, p_orgId = None \<rparr>"

definition car :: "string \<Rightarrow> ObjectId option \<Rightarrow> ObjectId option \<Rightarrow> bool \<Rightarrow> vehicle" where
  "car i owner org active =
     \<lparr> v_id = ObjectId i, ownerUserId = owner, orgId = org, ownerInfo = None,
       v_make = Some ''Toyota'', v_model = Some ''Corolla'', v_year = Some 2015,
       v_plate = Some ''KDA 123A'', v_color = None, v_isActive = active, imageUrl = None,
       createdAt = 0 \<rparr>"

definition garage :: "vehicle list \<Rightarrow> store" where
  "garage vs = \<lparr> vehicles = vs, users = [], auditLog = [] \<rparr>"

definition plain :: list_query where
  "plain = \<lparr> rq_page = None, rq_limit = None, rq_search = None, rq_ownerId = None \<rparr>"

text \<open>
  A cast for the samples: a string of 24 hexadecimal digits denotes the ObjectId that
  renders as its lower-case form, and any other string is refused with a message that
  quotes it.
\<close>

definition isHexDigit :: "char \<Rightarrow> bool" where
  "isHexDigit c = isRadixDigit 16 c"

definition lowerHex :: "char \<Rightarrow> char" where
  "lowerHex c =
     (if c = CHR ''A'' then CHR ''a'' else if c = CHR ''B'' then CHR ''b''
      else if c = CHR ''C'' then CHR ''c'' else if c = CHR ''D'' then CHR ''d''
      else if c = CHR ''E'' then CHR ''e'' else if c = CHR ''F'' then CHR ''f'' else c)"

definition hex24 :: cast where
  "hex24 s =
     (if length s = 24 \<and> list_all isHexDigit s then Inr (ObjectId (map lowerHex s))
      else Inl (''Cast to ObjectId failed for value '' @ [CHR 0x22] @ s @ [CHR 0x22]
                  @ '' (type string)''))"

text \<open>A datastore that refuses every pattern; requests without \<open>search\<close> never ask it.\<close>

definition no_regex :: regex where
  "no_regex pat = None"

text \<open>
  The key under which the roster's loop files a populated vehicle, with the entry it
  builds for it; \<open>None\<close> for a vehicle with neither a registered owner nor a named
  embedded owner.
\<close>

definition client_of :: "vehicle \<times> user option \<Rightarrow> (string \<times> client) option" where
  "client_of pv =
     (case snd pv of
        Some owner \<Rightarrow>
          Some (toString (u_id owner),
            \<lparr> c_id = toString (u_id owner),
              c_name = or_else (case u_profile owner of None \<Rightarrow> None | Some pr \<Rightarrow> pr_name pr)
                         ''Unknown'',
              c_email = or_else (u_email owner) [],
              c_phone = or_else (case u_profile owner of None \<Rightarrow> None | Some pr \<Rightarrow> pr_phone pr) [],
              c_type = ''registered'' \<rparr>)
      | None \<Rightarrow>
          (case ownerInfo (fst pv) of
             None \<Rightarrow> None
           | Some info \<Rightarrow>
               if truthy (oi_name info)
               then Some (''info_'' @ template (js_or (oi_phone info) (oi_email info)),
                      \<lparr> c_id = ''info_'' @ template (js_or (oi_phone info) (oi_email info)),
                        c_name = template (oi_name info),
                        c_email = or_else (oi_email info) [],
                        c_phone = or_else (oi_phone info) [],
                        c_type = ''embedded'' \<rparr>)
               else None))"

definition key_of :: "vehicle \<times> user option \<Rightarrow> string option" where
  "key_of pv = map_option fst (client_of pv)"

definition member :: "ObjectId \<Rightarrow> string \<Rightarrow> bool \<Rightarrow> user" where
  "member i nm active =
     \<lparr> u_id = i, u_email = Some (nm @ ''@example.com''),
       u_profile = Some \<lparr> pr_name = Some nm, pr_phone = None \<rparr>, u_isActive = active \<rparr>"

text \<open>Five vehicles of one organization, three of them active, held by two users.\<close>

definition fleet :: store where
  "fleet =
     \<lparr> vehicles =
         [car ''65000000000000000000c001'' (Some u1) (Some g1) True,
          car ''65000000000000000000c002'' (Some u1) (Some g1) True,
          car ''65000000000000000000c003'' (Some u2) (Some g1) True,
          car ''65000000000000000000c004'' (Some u2) (Some g1) False,
          car ''65000000000000000000c005'' None (Some g1) False],
       users = [member u1 ''amina'' True, member u2 ''brian'' False],
       auditLog = [] \<rparr>"

text \<open>Twelve active vehicles of one owner.\<close>

definition twelve :: "vehicle list" where
  "twelve = map (\<lambda>c. car (''65000000000000000000d00'' @ [c]) (Some u1) (Some g1) True)
              ''0123456789ab''"

text \<open>Twelve vehicles of one owner and organization, the first four of them active.\<close>

definition dozen :: "vehicle list" where
  "dozen = map (\<lambda>c. car (''65000000000000000000d00'' @ [c]) (Some u1) (Some g1)
                      (c \<in> set ''0123''))
              ''0123456789ab''"

text \<open>Two vehicles of one unregistered owner, and one of a registered owner.\<close>

definition walk_in_car :: "string \<Rightarrow> string \<Rightarrow> vehicle" where
  "walk_in_car i nm =
     (car i None (Some g1) True)
       \<lparr> ownerInfo := Some \<lparr> oi_name = Some nm, oi_email = None, oi_phone = Some ''0700000001'' \<rparr> \<rparr>"

definition yard :: store where
  "yard =
     \<lparr> vehicles =
         [walk_in_car ''65000000000000000000e001'' ''Chege'',
          car ''65000000000000000000e002'' (Some u1) (Some g1) True,
          walk_in_car ''65000000000000000000e003'' ''Chege K.'',
          car ''65000000000000000000e004'' (Some u1) (Some g1) True],
       users = [member u1 ''amina'' True],
       auditLog = [] \<rparr>"

text \<open>A request body, and providers that fail with a given message or succeed.\<close>

definition body_for :: "string \<Rightarrow> gen_body" where
  "body_for vid =
     \<lparr> req_vehicleId = Some vid, req_make = Some ''Toyota'', req_model = Some ''Corolla'',
       req_year = Some ''2015'', req_color = None \<rparr>"

definition failing :: "string \<Rightarrow> provider" where
  "failing msg g = Inl msg"

definition bob :: principal where
  "bob = \<lparr> p_id = u2, p_orgId = Some g2 \<rparr>"

text \<open>The filter of a listing that gives no \<open>ownerId\<close>.\<close>

definition plain_filter :: "principal \<Rightarrow> list_query \<Rightarrow> query" where
  "plain_filter p r =
     (if truthy (rq_search r)
      then access p \<lparr> q_isActive := Some True, q_and := [template (rq_search r)] \<rparr>
      else access p \<lparr> q_isActive := Some True \<rparr>)"

text \<open>
  What a listing without \<open>ownerId\<close> is to select: the active vehicles that the principal
  owns or that are of the principal's organization, narrowed by the search when one is
  given.
\<close>

definition plainly_listed :: "regex \<Rightarrow> principal \<Rightarrow> list_query \<Rightarrow> vehicle \<Rightarrow> bool" where
  "plainly_listed rx p r v =
     (v_isActive v \<and> owner_or_org p v
      \<and> (truthy (rq_search r) \<longrightarrow> search_clause rx v (template (rq_search r))))"

text \<open>
  What a listing with an \<open>ownerId\<close> that denotes the ObjectId \<open>i\<close> is to select: the
  active vehicles whose owning user is \<open>i\<close>, of the caller's organization when the caller
  has one, narrowed by the search when one is given.
\<close>

definition owner_listed :: "regex \<Rightarrow> principal \<Rightarrow> ObjectId \<Rightarrow> list_query \<Rightarrow> vehicle \<Rightarrow> bool" where
  "owner_listed rx p i r v =
     (v_isActive v \<and> ownerUserId v = Some i
      \<and> (p_orgId p \<noteq> None \<longrightarrow> orgId v = p_orgId p)
      \<and> (truthy (rq_search r) \<longrightarrow> search_clause rx v (template (rq_search r))))"

section \<open>Properties of the Booking model\<close>

lemma trim_id:
  assumes "s \<noteq> []" "\<not> isWhiteSpace (hd s)" "\<not> isWhiteSpace (last s)"
  shows "trim s = s"
proof -
  from assms have a: "dropWhile isWhiteSpace s = s" by (cases s) auto
  from assms have "rev s \<noteq> []" "\<not> isWhiteSpace (hd (rev s))" by (simp_all add: hd_rev)
  then have b: "dropWhile isWhiteSpace (rev s) = rev s" by (cases "rev s") auto
  show ?thesis by (simp add: trim_def a b)
qed

lemma isWhiteSpace_samples: "\<not> isWhiteSpace CHR ''x''" "isWhiteSpace CHR '' ''"
  by (simp_all add: isWhiteSpace_def)

lemma trim_replicate_x: "trim (replicate n CHR ''x'') = replicate n CHR ''x''"
  by (simp add: trim_def isWhiteSpace_samples)

lemma accepted_iff:
  "accepted obj \<longleftrightarrow>
     garageId obj \<noteq> None \<and> serviceType obj \<in> Some ` set serviceTypes \<and> scheduledDate obj \<noteq> None
     \<and> (\<forall>d. duration obj = Some d \<longrightarrow> 15 \<le> d)
     \<and> (\<forall>s. status obj = Some s \<longrightarrow> s \<in> set statuses)
     \<and> (\<forall>s. b_notes obj = Some s \<longrightarrow> length (trim s) \<le> 1000)
     \<and> (\<forall>s. garageNotes obj = Some s \<longrightarrow> length (trim s) \<le> 1000)
     \<and> (\<forall>s. source obj = Some s \<longrightarrow> s \<in> set sources)"
  by (auto simp: accepted_def validate_def new_Booking_def required_id_def required_enum_def
      enum_of_def required_min_def maxLength_def with_default_def truthy_def serviceTypes_def
      statuses_def sources_def
      split: option.splits if_splits)

text \<open>
  C8 (as amended). A booking constructed with \<open>duration = 10\<close> is rejected. A booking whose
  \<open>notes\<close> or \<open>garageNotes\<close> is longer than 1000 characters after the schema's trim is
  rejected; in particular a string of length 1001 that neither starts nor ends with white
  space. Every accepted booking carries a garage reference, a service type of the
  enumeration, a scheduled date, a duration of at least 15 when one is given, a status and
  a source of their enumerations when given, and notes and garage notes of at most 1000
  characters after the trim. The bounds are inclusive: the walk-in repair booking with a
  duration of 15 and notes and garage notes of 1000 characters is accepted.
\<close>

theorem booking_validation_bounds:
  "(duration obj = Some 10 \<longrightarrow> \<not> accepted obj)
   \<and> (\<forall>s. (b_notes obj = Some s \<or> garageNotes obj = Some s) \<and> 1000 < length (trim s)
          \<longrightarrow> \<not> accepted obj)
   \<and> (\<forall>s. (b_notes obj = Some s \<or> garageNotes obj = Some s) \<and> length s = 1001
          \<and> \<not> isWhiteSpace (hd s) \<and> \<not> isWhiteSpace (last s) \<longrightarrow> \<not> accepted obj)
   \<and> (accepted obj \<longrightarrow>
        garageId obj \<noteq> None
        \<and> serviceType obj \<in> Some ` set serviceTypes
        \<and> scheduledDate obj \<noteq> None
        \<and> (\<forall>d. duration obj = Some d \<longrightarrow> 15 \<le> d)
        \<and> (\<forall>s. status obj = Some s \<longrightarrow> s \<in> set statuses)
        \<and> (\<forall>s. b_notes obj = Some s \<longrightarrow> length (trim s) \<le> 1000)
        \<and> (\<forall>s. garageNotes obj = Some s \<longrightarrow> length (trim s) \<le> 1000)
        \<and> (\<forall>s. source obj = Some s \<longrightarrow> s \<in> set sources))
   \<and> accepted (walk_in\<lparr>duration := Some 15, b_notes := Some (replicate 1000 CHR ''x''),
                        garageNotes := Some (replicate 1000 CHR ''x'')\<rparr>)"
  (is "?A \<and> ?B \<and> ?C \<and> ?D \<and> ?E")
proof -
  have A: ?A by (simp add: accepted_iff)
  have B: ?B by (auto simp: accepted_iff)
  have C: ?C
  proof (intro allI impI)
    fix s
    assume a: "(b_notes obj = Some s \<or> garageNotes obj = Some s) \<and> length s = 1001
          \<and> \<not> isWhiteSpace (hd s) \<and> \<not> isWhiteSpace (last s)"
    then have "s \<noteq> []" by auto
    with a have "trim s = s" by (simp add: trim_id)
    with a show "\<not> accepted obj" by (auto simp: accepted_iff)
  qed
  have D: ?D using accepted_iff [of obj] by blast
  have E: ?E by (simp add: accepted_iff walk_in_def serviceTypes_def trim_replicate_x)
  from A B C D E show ?thesis by blast
qed

theorem booking_validation_bounds_witness:
  "\<not> accepted (walk_in\<lparr>duration := Some 10\<rparr>)
   \<and> \<not> accepted (walk_in\<lparr>b_notes := Some (replicate 1001 CHR ''x'')\<rparr>)
   \<and> \<not> accepted (walk_in\<lparr>garageNotes := Some (replicate 1001 CHR ''x'')\<rparr>)
   \<and> accepted (walk_in\<lparr>duration := Some 15\<rparr>)
   \<and> garageId (walk_in\<lparr>duration := Some 15\<rparr>) \<noteq> None
   \<and> serviceType (walk_in\<lparr>duration := Some 15\<rparr>) \<in> Some ` set serviceTypes
   \<and> scheduledDate (walk_in\<lparr>duration := Some 15\<rparr>) \<noteq> None"
proof -
  let ?long = "replicate 1001 CHR ''x''"
  have 1: "\<not> accepted (walk_in\<lparr>duration := Some 10\<rparr>)"
    using booking_validation_bounds [of "walk_in\<lparr>duration := Some 10\<rparr>"] by simp
  have "b_notes (walk_in\<lparr>b_notes := Some ?long\<rparr>) = Some ?long \<and> 1000 < length (trim ?long)"
    by (simp add: trim_replicate_x)
  with booking_validation_bounds [of "walk_in\<lparr>b_notes := Some ?long\<rparr>"]
  have 2: "\<not> accepted (walk_in\<lparr>b_notes := Some ?long\<rparr>)" by blast
  have "garageNotes (walk_in\<lparr>garageNotes := Some ?long\<rparr>) = Some ?long
          \<and> length ?long = 1001 \<and> \<not> isWhiteSpace (hd ?long) \<and> \<not> isWhiteSpace (last ?long)"
    by (simp add: isWhiteSpace_samples)
  with booking_validation_bounds [of "walk_in\<lparr>garageNotes := Some ?long\<rparr>"]
  have 3: "\<not> accepted (walk_in\<lparr>garageNotes := Some ?long\<rparr>)" by blast
  have a: "accepted (walk_in\<lparr>duration := Some 15\<rparr>)"
    by (simp add: accepted_def validate_def new_Booking_def required_id_def required_enum_def
        enum_of_def required_min_def maxLength_def with_default_def truthy_def serviceTypes_def
        statuses_def sources_def walk_in_def)
  with booking_validation_bounds [of "walk_in\<lparr>duration := Some 15\<rparr>"]
  have 4: "garageId (walk_in\<lparr>duration := Some 15\<rparr>) \<noteq> None
      \<and> serviceType (walk_in\<lparr>duration := Some 15\<rparr>) \<in> Some ` set serviceTypes
      \<and> scheduledDate (walk_in\<lparr>duration := Some 15\<rparr>) \<noteq> None"
    by blast
  from 1 2 3 4 a show ?thesis by blast
qed

text \<open>
  Against C8 as stated: a booking within the bounds that carries a garage reference but no
  service type is rejected, and a booking whose notes have length 1001, the last character
  a space, is accepted.
\<close>

theorem booking_bounds_counterexample:
  "\<not> accepted (walk_in\<lparr>serviceType := None, duration := Some 60\<rparr>)
   \<and> garageId (walk_in\<lparr>serviceType := None, duration := Some 60\<rparr>) \<noteq> None
   \<and> length (replicate 1000 CHR ''x'' @ '' '') = 1001
   \<and> accepted (walk_in\<lparr>b_notes := Some (replicate 1000 CHR ''x'' @ '' '')\<rparr>)"
proof -
  have t: "trim (replicate 1000 CHR ''x'' @ '' '') = replicate 1000 CHR ''x''"
    by (simp add: trim_def isWhiteSpace_samples)
  show ?thesis
    by (simp add: accepted_iff walk_in_def serviceTypes_def t)
qed

text \<open>
  C9. \<open>isUpcoming\<close> holds exactly when the scheduled date is strictly after the current
  time and the status is not \<open>cancelled\<close>; it is false once the scheduled date has passed,
  whatever the status. \<open>isPast\<close> holds exactly when the scheduled date is before the
  current time, and does not depend on the status.
\<close>

theorem booking_virtuals:
  "(isUpcoming now doc \<longleftrightarrow>
      (\<exists>d. scheduledDate doc = Some d \<and> now < d) \<and> status doc \<noteq> Some ''cancelled'')
   \<and> (\<forall>d. scheduledDate doc = Some d \<and> d \<le> now \<longrightarrow> \<not> isUpcoming now doc)
   \<and> (isPast now doc \<longleftrightarrow> (\<exists>d. scheduledDate doc = Some d \<and> d < now))
   \<and> isPast now (doc\<lparr>status := s\<rparr>) = isPast now doc"
  by (auto simp: isUpcoming_def isPast_def split: option.splits)

theorem booking_virtuals_witness:
  "\<not> isUpcoming 1700000000001 (walk_in\<lparr>status := Some ''pending''\<rparr>)
   \<and> isPast 1700000000001 (walk_in\<lparr>status := Some ''pending''\<rparr>)
   \<and> isUpcoming 1699999999999 (walk_in\<lparr>status := Some ''pending''\<rparr>)
   \<and> \<not> isUpcoming 1699999999999 (walk_in\<lparr>status := Some ''cancelled''\<rparr>)
   \<and> \<not> isPast 1700000000000 walk_in \<and> \<not> isUpcoming 1700000000000 walk_in"
  using booking_virtuals [of 1700000000001 "walk_in\<lparr>status := Some ''pending''\<rparr>"]
    booking_virtuals [of 1699999999999 "walk_in\<lparr>status := Some ''pending''\<rparr>"]
    booking_virtuals [of 1699999999999 "walk_in\<lparr>status := Some ''cancelled''\<rparr>"]
    booking_virtuals [of 1700000000000 walk_in]
  by (simp add: walk_in_def)

text \<open>
  C10. A booking constructed without a service type (or with the empty string) fails the
  \<open>required\<close> validator of \<open>serviceType\<close>, one with a service type outside
  \<open>inspection\<close>, \<open>repair\<close>, \<open>maintenance\<close>, \<open>diagnostic\<close> fails its \<open>enum\<close>
  validator; either way the booking is rejected, so every accepted booking carries a
  service type of this set.
\<close>

theorem serviceType_required:
  "(\<not> truthy (serviceType obj) \<longrightarrow>
      (''serviceType'', Required) \<in> set (validate (new_Booking obj)) \<and> \<not> accepted obj)
   \<and> (\<forall>s. serviceType obj = Some s \<and> s \<noteq> []
           \<and> s \<notin> {''inspection'', ''repair'', ''maintenance'', ''diagnostic''} \<longrightarrow>
        (''serviceType'', Enum) \<in> set (validate (new_Booking obj)) \<and> \<not> accepted obj)
   \<and> (accepted obj \<longrightarrow>
        (\<exists>s \<in> {''inspection'', ''repair'', ''maintenance'', ''diagnostic''}.
            serviceType obj = Some s))"
  by (auto simp: accepted_def validate_def new_Booking_def required_enum_def enum_of_def
      truthy_def serviceTypes_def split: option.splits if_splits)

theorem serviceType_required_witness:
  "\<not> accepted (walk_in\<lparr>serviceType := None\<rparr>)
   \<and> (''serviceType'', Required) \<in> set (validate (new_Booking (walk_in\<lparr>serviceType := None\<rparr>)))
   \<and> \<not> accepted (walk_in\<lparr>serviceType := Some ''towing''\<rparr>)
   \<and> (''serviceType'', Enum)
        \<in> set (validate (new_Booking (walk_in\<lparr>serviceType := Some ''towing''\<rparr>)))
   \<and> accepted walk_in \<and> serviceType walk_in = Some ''repair''"
proof -
  have a: "accepted walk_in"
    by (simp add: accepted_iff walk_in_def serviceTypes_def)
  show ?thesis
    using serviceType_required [of "walk_in\<lparr>serviceType := None\<rparr>"]
      serviceType_required [of "walk_in\<lparr>serviceType := Some ''towing''\<rparr>"]
      serviceType_required [of walk_in] a
    by (simp add: truthy_def walk_in_def)
qed

section \<open>Filters, lookups and replies\<close>

lemma matches_access: "matches (access p) v \<longleftrightarrow> owner_or_org p v"
  by (simp add: matches_def access_def no_filter_def eq_clause_def owner_or_org_def)

lemma matches_access_fun: "matches (access p) = owner_or_org p"
  by (rule ext) (rule matches_access)

lemma matches_access_id:
  "matches (access p \<lparr> q_id := Some (Some i) \<rparr>) v \<longleftrightarrow> v_id v = i \<and> owner_or_org p v"
  by (auto simp: matches_def access_def no_filter_def eq_clause_def owner_or_org_def)

lemma matches_access_id_fun:
  "matches (access p \<lparr> q_id := Some (Some i) \<rparr>) = (\<lambda>v. v_id v = i \<and> owner_or_org p v)"
  by (rule ext) (simp add: matches_access_id)

lemma matches_access_active_fun:
  "matches (access p \<lparr> q_isActive := Some True \<rparr>) = (\<lambda>v. owner_or_org p v \<and> v_isActive v)"
  by (rule ext) (auto simp: matches_def access_def no_filter_def eq_clause_def owner_or_org_def)

lemma find_Some_distinct:
  "distinct (map f xs) \<Longrightarrow> x \<in> set xs \<Longrightarrow>
     List.find (\<lambda>y. f y = f x \<and> P y) xs = (if P x then Some x else None)"
  by (induction xs) (auto simp: image_iff find_None_iff)

lemma get_vehicle_cast:
  "cast vid = Inr i \<Longrightarrow>
   get_vehicle cast p vid st =
     (case List.find (\<lambda>w. v_id w = i \<and> owner_or_org p w) (vehicles st) of
        None \<Rightarrow> Error 404 (vehicle_not_found ''/api/v1/vehicles/:vehicleId'')
      | Some vehicle \<Rightarrow> Json vehicle)"
  by (simp add: get_vehicle_def Vehicle_findOne_def matches_access_id_fun)

lemma get_vehicle_refused:
  "cast vid = Inl e \<Longrightarrow>
   get_vehicle cast p vid st = Error 500 (internal_error ''Failed to retrieve vehicle'')"
  by (simp add: get_vehicle_def)

lemma list_filter_plain:
  "\<not> truthy (rq_ownerId r) \<Longrightarrow> list_filter cast p r = Inr (plain_filter p r)"
  by (simp add: list_filter_def plain_filter_def Let_def access_def no_filter_def)

lemma matches_plain_filter:
  "matches_rx rx (plain_filter p r) v \<longleftrightarrow>
     v_isActive v \<and> owner_or_org p v
     \<and> (truthy (rq_search r) \<longrightarrow> search_clause rx v (template (rq_search r)))"
  by (auto simp: plain_filter_def matches_rx_def matches_def access_def no_filter_def
      eq_clause_def owner_or_org_def)

lemma list_filter_owner:
  assumes "rq_ownerId r = Some oid" "oid \<noteq> []"
  shows "list_filter cast p r =
           (case cast oid of Inl e \<Rightarrow> Inl e
            | Inr i \<Rightarrow> Inr ((by_owner p i (access p \<lparr> q_isActive := Some True \<rparr>))
                \<lparr> q_and := (if truthy (rq_search r) then [template (rq_search r)] else []) \<rparr>))"
  using assms
  by (simp add: list_filter_def by_owner_def truthy_def template_def Let_def access_def
      no_filter_def split: sum.splits)

lemma matches_by_owner:
  "matches_rx rx ((by_owner p i (access p \<lparr> q_isActive := Some True \<rparr>))
       \<lparr> q_and := (if truthy (rq_search r) then [template (rq_search r)] else []) \<rparr>) v \<longleftrightarrow>
     v_isActive v \<and> ownerUserId v = Some i
     \<and> (p_orgId p \<noteq> None \<longrightarrow> orgId v = p_orgId p)
     \<and> (truthy (rq_search r) \<longrightarrow> search_clause rx v (template (rq_search r)))"
  by (auto simp: by_owner_def matches_rx_def matches_def access_def no_filter_def
      eq_clause_def Let_def)

lemma q_or_by_owner:
  "q_or ((by_owner p i q) \<lparr> q_and := ps \<rparr>) = None"
  by (simp add: by_owner_def Let_def)

lemma q_and_list_filter:
  "list_filter cast p r = Inr q \<Longrightarrow>
     q_and q = (if truthy (rq_search r) then [template (rq_search r)] else [])"
  by (auto simp: list_filter_def by_owner_def Let_def access_def no_filter_def
      split: if_splits sum.splits)

lemma skip_limit_subset: "skip_limit a b xs = Some ys \<Longrightarrow> set ys \<subseteq> set xs"
  by (auto simp: skip_limit_def split: number.splits if_splits
      dest: in_set_takeD in_set_dropD)

lemma skip_limit_page:
  "0 \<le> a \<Longrightarrow> 1 \<le> b \<Longrightarrow> skip_limit (Num a) (Num b) xs = Some (take (nat b) (drop (nat a) xs))"
  by (simp add: skip_limit_def)

lemma toNumber_exact: "\<bar>n\<bar> < 2 ^ 53 \<Longrightarrow> toNumber n = Num n"
  by (simp add: toNumber_def Let_def)

lemma skip_of_exact:
  assumes "1 \<le> pg" "1 \<le> l" "pg * l < 2 ^ 53"
  shows "skip_of (Num pg) (Num l) = Num ((pg - 1) * l)"
proof -
  from assms have "0 \<le> pg - 1" "pg - 1 \<le> pg * l"
    by (simp_all add: mult_le_cancel_left1 order_trans [of _ pg] )
  with assms have a: "\<bar>pg - 1\<bar> < 2 ^ 53" by linarith
  from assms have "0 \<le> (pg - 1) * l" "(pg - 1) * l \<le> pg * l"
    by (simp_all add: mult_right_mono)
  with assms have b: "\<bar>(pg - 1) * l\<bar> < 2 ^ 53" by linarith
  show ?thesis
    by (simp add: skip_of_def minus_one_def times_def toNumber_exact [OF a] toNumber_exact [OF b])
qed

lemma item_id_entry: "item_id (entry_of r (populate us v)) = v_id v"
  by (simp add: item_id_def entry_of_def form_entry_def list_entry_def populate_def Let_def)

lemma map_item_id_entries:
  "map item_id (map (entry_of r) (map (populate us) vs)) = map v_id vs"
  by (simp add: item_id_entry o_def)

lemma list_vehicles_Json:
  "list_vehicles cast rx p r st = Json d \<longleftrightarrow>
     (\<exists>q found. list_filter cast p r = Inr q
        \<and> list_all (\<lambda>pat. rx pat \<noteq> None) (q_and q)
        \<and> skip_limit (skip_of (page_of r) (limit_of r)) (limit_of r)
             (sort_createdAt_desc (filter (matches_rx rx q) (vehicles st))) = Some found
        \<and> d = \<lparr> r_data = map (entry_of r) (map (populate (users st)) found),
                 r_total = length (filter (matches_rx rx q) (vehicles st)),
                 r_page = page_of r, r_limit = limit_of r,
                 r_pages = pages_of (length (filter (matches_rx rx q) (vehicles st)))
                             (limit_of r) \<rparr>)"
  by (auto simp: list_vehicles_def Let_def Vehicle_find_def Vehicle_countDocuments_def entry_of_def
      split: option.splits sum.splits)

lemma list_vehicles_refused:
  "list_filter cast p r = Inl e \<Longrightarrow>
   list_vehicles cast rx p r st = Error 500 (internal_error ''Failed to retrieve vehicles'')"
  by (simp add: list_vehicles_def Let_def)

text \<open>The reply of a listing whose page and limit are positive integers.\<close>

lemma list_vehicles_page:
  assumes "list_filter cast p r = Inr q"
    and "page_of r = Num pg" "limit_of r = Num l" "1 \<le> pg" "1 \<le> l" "pg * l < 2 ^ 53"
    and "list_all (\<lambda>pat. rx pat \<noteq> None) (q_and q)"
  shows "list_vehicles cast rx p r st =
     Json \<lparr> r_data = map (entry_of r) (map (populate (users st))
                (take (nat l) (drop (nat ((pg - 1) * l))
                   (sort_createdAt_desc (filter (matches_rx rx q) (vehicles st)))))),
            r_total = length (filter (matches_rx rx q) (vehicles st)),
            r_page = Num pg, r_limit = Num l,
            r_pages = Num \<lceil>rat_of_nat (length (filter (matches_rx rx q) (vehicles st)))
                             / rat_of_int l\<rceil> \<rparr>"
proof -
  from assms(4,5) have "0 \<le> (pg - 1) * l" by simp
  then have "skip_limit (skip_of (page_of r) (limit_of r)) (limit_of r) xs
               = Some (take (nat l) (drop (nat ((pg - 1) * l)) xs))" for xs :: "vehicle list"
    using assms(2,3,4,5,6) by (simp add: skip_of_exact skip_limit_page)
  then show ?thesis
    using assms by (simp add: list_vehicles_Json pages_of_def)
qed

lemma set_sort_createdAt_desc: "set (sort_createdAt_desc vs) = set vs"
  by (simp add: sort_createdAt_desc_def)

lemma length_sort_createdAt_desc: "length (sort_createdAt_desc vs) = length vs"
  by (simp add: sort_createdAt_desc_def)

lemma pages_of_Num: "b \<noteq> 0 \<Longrightarrow> pages_of n (Num b) = Num (- ((- int n) div b))"
  using ceiling_divide_eq_div [of "int n" b, where 'a = rat] by (simp add: pages_of_def)

lemma hex24_lower:
  "hex24 ''650000000000000000000002'' = Inr (ObjectId ''650000000000000000000002'')"
  "hex24 ''65000000000000000000c001'' = Inr (ObjectId ''65000000000000000000c001'')"
  "hex24 ''65000000000000000000c004'' = Inr (ObjectId ''65000000000000000000c004'')"
  "hex24 ''65000000000000000000C004'' = Inr (ObjectId ''65000000000000000000c004'')"
  "hex24 ''65000000000000000000ffff'' = Inr (ObjectId ''65000000000000000000ffff'')"
  by (simp_all add: hex24_def isHexDigit_def isRadixDigit_def digitValue_def lowerHex_def)

lemma hex24_refused:
  "\<exists>e. hex24 ''abc'' = Inl e" "\<exists>e. hex24 ''xyz'' = Inl e"
  by (simp_all add: hex24_def)

lemma skip_of_default: "skip_of (Num 1) (Num 10) = Num 0"
  using skip_of_exact [of 1 10] by simp

lemma list_vehicles_range:
  assumes "list_filter cast p r = Inr q" and "list_vehicles cast rx p r st = Json d"
  shows "r_total d = length (filter (matches_rx rx q) (vehicles st))
     \<and> set (map item_id (r_data d)) \<subseteq> v_id ` {w \<in> set (vehicles st). matches_rx rx q w}"
proof -
  let ?M = "filter (matches_rx rx q) (vehicles st)"
  from assms obtain found where
    f: "skip_limit (skip_of (page_of r) (limit_of r)) (limit_of r)
          (sort_createdAt_desc ?M) = Some found"
    and d: "r_data d = map (entry_of r) (map (populate (users st)) found)"
    and t: "r_total d = length ?M"
    by (auto simp: list_vehicles_Json)
  from f have "set found \<subseteq> set ?M"
    using skip_limit_subset by (fastforce simp: set_sort_createdAt_desc)
  moreover have "map item_id (r_data d) = map v_id found"
    by (simp add: d item_id_entry)
  ultimately show ?thesis using t by auto
qed

lemma skip_of_none: "skip_of (Num 1) (Num 0) = Num 0"
  by (simp add: skip_of_def minus_one_def times_def toNumber_exact)

lemma parseInt_digit:
  "parseInt ''0'' = Num 0" "parseInt ''2'' = Num 2" "parseInt ''5'' = Num 5"
  by (simp_all add: parseInt_def isWhiteSpace_def isRadixDigit_def digitValue_def digitsValue_def
      toNumber_exact Let_def)

section \<open>Access to vehicles\<close>

text \<open>
  C1 (as amended). Get-by-id, on a path parameter that denotes an ObjectId, returns a
  vehicle of the collection exactly when its owning user is the principal or its
  organization is the principal's; what it returns is such a vehicle with the id asked
  for; a parameter that denotes no ObjectId is answered with the internal error (500).
  The listing called without an \<open>ownerId\<close> ranges over exactly the active vehicles that
  satisfy the same condition (and the search clause, when a search is given): its total
  counts them, every entry of its data stands for one of them, and the first page holds
  all of them when the limit is large enough. The listing called with an \<open>ownerId\<close> that
  denotes an ObjectId ranges instead over the active vehicles of that owner, within the
  caller's organization when the caller has one: a filter that does not mention the
  principal's user identifier.
\<close>

theorem vehicle_access:
  "(distinct (map v_id (vehicles st)) \<and> v \<in> set (vehicles st) \<and> cast vid = Inr (v_id v) \<longrightarrow>
      (get_vehicle cast p vid st = Json v \<longleftrightarrow> owner_or_org p v))
   \<and> (get_vehicle cast p vid st = Json v \<longrightarrow>
        v \<in> set (vehicles st) \<and> cast vid = Inr (v_id v) \<and> owner_or_org p v)
   \<and> ((\<exists>e. cast vid = Inl e) \<longrightarrow>
        get_vehicle cast p vid st = Error 500 (internal_error ''Failed to retrieve vehicle''))
   \<and> (\<not> truthy (rq_ownerId r) \<longrightarrow>
        (\<exists>q. list_filter cast p r = Inr q
           \<and> (\<forall>w. matches_rx rx q w \<longleftrightarrow> plainly_listed rx p r w)))
   \<and> (\<not> truthy (rq_ownerId r) \<and> list_vehicles cast rx p r st = Json d \<longrightarrow>
        r_total d = length (filter (plainly_listed rx p r) (vehicles st))
        \<and> set (map item_id (r_data d))
            \<subseteq> v_id ` {w \<in> set (vehicles st). plainly_listed rx p r w})
   \<and> (\<not> truthy (rq_ownerId r)
        \<and> page_of r = Num 1 \<and> limit_of r = Num l \<and> 1 \<le> l \<and> l < 2 ^ 53
        \<and> int (length (vehicles st)) \<le> l
        \<and> (truthy (rq_search r) \<longrightarrow> rx (template (rq_search r)) \<noteq> None) \<longrightarrow>
        (\<exists>d'. list_vehicles cast rx p r st = Json d'
           \<and> set (map item_id (r_data d'))
               = v_id ` {w \<in> set (vehicles st). plainly_listed rx p r w}))
   \<and> (rq_ownerId r = Some oid \<and> oid \<noteq> [] \<and> cast oid = Inr i \<longrightarrow>
        (\<exists>q. list_filter cast p r = Inr q \<and> q_or q = None
           \<and> (\<forall>w. matches_rx rx q w \<longleftrightarrow> owner_listed rx p i r w)))"
  (is "?A \<and> ?B \<and> ?B' \<and> ?C \<and> ?D \<and> ?E \<and> ?F")
proof -
  have pl: "matches_rx rx (plain_filter p r) = plainly_listed rx p r"
    by (rule ext) (simp add: matches_plain_filter plainly_listed_def)
  have A: ?A
  proof
    assume a: "distinct (map v_id (vehicles st)) \<and> v \<in> set (vehicles st) \<and> cast vid = Inr (v_id v)"
    have "List.find (\<lambda>w. v_id w = v_id v \<and> owner_or_org p w) (vehicles st)
            = (if owner_or_org p v then Some v else None)"
      using a by (simp add: find_Some_distinct)
    with a show "get_vehicle cast p vid st = Json v \<longleftrightarrow> owner_or_org p v"
      by (simp add: get_vehicle_cast)
  qed
  have B: ?B
  proof
    assume j: "get_vehicle cast p vid st = Json v"
    show "v \<in> set (vehicles st) \<and> cast vid = Inr (v_id v) \<and> owner_or_org p v"
    proof (cases "cast vid")
      case (Inl e)
      with j show ?thesis by (simp add: get_vehicle_refused)
    next
      case (Inr i)
      with j have "List.find (\<lambda>w. v_id w = i \<and> owner_or_org p w) (vehicles st) = Some v"
        by (simp add: get_vehicle_cast split: option.splits)
      with Inr show ?thesis by (auto simp: find_Some_iff)
    qed
  qed
  have B': ?B'
    by (auto simp: get_vehicle_refused)
  have C: ?C
    by (auto simp: list_filter_plain pl)
  have D: ?D
  proof
    assume a: "\<not> truthy (rq_ownerId r) \<and> list_vehicles cast rx p r st = Json d"
    then have "list_filter cast p r = Inr (plain_filter p r)"
      by (simp add: list_filter_plain)
    from list_vehicles_range [OF this, of rx st d] a
    show "r_total d = length (filter (plainly_listed rx p r) (vehicles st))
        \<and> set (map item_id (r_data d))
            \<subseteq> v_id ` {w \<in> set (vehicles st). plainly_listed rx p r w}"
      by (simp add: pl)
  qed
  have E: ?E
  proof
    assume e: "\<not> truthy (rq_ownerId r)
        \<and> page_of r = Num 1 \<and> limit_of r = Num l \<and> 1 \<le> l \<and> l < 2 ^ 53
        \<and> int (length (vehicles st)) \<le> l
        \<and> (truthy (rq_search r) \<longrightarrow> rx (template (rq_search r)) \<noteq> None)"
    let ?M = "filter (matches_rx rx (plain_filter p r)) (vehicles st)"
    let ?d = "\<lparr> r_data = map (entry_of r) (map (populate (users st))
                (take (nat l) (drop (nat ((1 - 1) * l)) (sort_createdAt_desc ?M)))),
            r_total = length ?M, r_page = Num 1, r_limit = Num l,
            r_pages = Num \<lceil>rat_of_nat (length ?M) / rat_of_int l\<rceil> \<rparr>"
    from e have f: "list_filter cast p r = Inr (plain_filter p r)"
      by (simp add: list_filter_plain)
    from e have q: "list_all (\<lambda>pat. rx pat \<noteq> None) (q_and (plain_filter p r))"
      by (simp add: q_and_list_filter [OF f])
    from e have j: "list_vehicles cast rx p r st = Json ?d"
      by (intro list_vehicles_page [OF f _ _ _ _ _ q]) simp_all
    have "length (sort_createdAt_desc ?M) \<le> length (vehicles st)"
      by (simp add: length_sort_createdAt_desc)
    with e have "length (sort_createdAt_desc ?M) \<le> nat l" by linarith
    then have "take (nat l) (drop (nat ((1 - 1) * l)) (sort_createdAt_desc ?M))
                 = sort_createdAt_desc ?M" by simp
    then have "set (map item_id (r_data ?d)) = v_id ` set ?M"
      by (simp add: item_id_entry set_sort_createdAt_desc image_image)
    then have "set (map item_id (r_data ?d))
               = v_id ` {w \<in> set (vehicles st). plainly_listed rx p r w}"
      by (simp add: pl)
    with j show "\<exists>d'. list_vehicles cast rx p r st = Json d'
           \<and> set (map item_id (r_data d'))
               = v_id ` {w \<in> set (vehicles st). plainly_listed rx p r w}"
      by blast
  qed
  have F: ?F
  proof
    assume a: "rq_ownerId r = Some oid \<and> oid \<noteq> [] \<and> cast oid = Inr i"
    let ?q = "(by_owner p i (access p \<lparr> q_isActive := Some True \<rparr>))
                \<lparr> q_and := (if truthy (rq_search r) then [template (rq_search r)] else []) \<rparr>"
    from a have "list_filter cast p r = Inr ?q"
      by (simp add: list_filter_owner)
    moreover have "q_or ?q = None"
      by (rule q_or_by_owner)
    moreover have "\<forall>w. matches_rx rx ?q w \<longleftrightarrow> owner_listed rx p i r w"
      unfolding owner_listed_def by (rule allI) (rule matches_by_owner)
    ultimately show "\<exists>q. list_filter cast p r = Inr q \<and> q_or q = None
           \<and> (\<forall>w. matches_rx rx q w \<longleftrightarrow> owner_listed rx p i r w)"
      by blast
  qed
  from A B B' C D E F show ?thesis by blast
qed

theorem vehicle_access_witness:
  "get_vehicle hex24 alice ''65000000000000000000c004'' fleet
     = Json (car ''65000000000000000000c004'' (Some u2) (Some g1) False)
   \<and> get_vehicle hex24 alice ''65000000000000000000C004'' fleet
     = Json (car ''65000000000000000000c004'' (Some u2) (Some g1) False)
   \<and> get_vehicle hex24 bob ''65000000000000000000c001'' fleet
     \<noteq> Json (car ''65000000000000000000c001'' (Some u1) (Some g1) True)
   \<and> get_vehicle hex24 alice ''abc'' fleet
     = Error 500 (internal_error ''Failed to retrieve vehicle'')
   \<and> (\<exists>d. list_vehicles hex24 no_regex alice plain fleet = Json d \<and> r_total d = 3
          \<and> set (map item_id (r_data d))
              = {ObjectId ''65000000000000000000c001'', ObjectId ''65000000000000000000c002'',
                 ObjectId ''65000000000000000000c003''})
   \<and> (\<exists>q. list_filter hex24 solo (plain \<lparr> rq_ownerId := Some ''650000000000000000000002'' \<rparr>)
              = Inr q
          \<and> matches_rx no_regex q (car ''65000000000000000000c009'' (Some u2) (Some g2) True))"
proof -
  let ?c1 = "car ''65000000000000000000c001'' (Some u1) (Some g1) True"
  let ?c4 = "car ''65000000000000000000c004'' (Some u2) (Some g1) False"
  let ?c9 = "car ''65000000000000000000c009'' (Some u2) (Some g2) True"
  let ?r = "plain \<lparr> rq_ownerId := Some ''650000000000000000000002'' \<rparr>"
  have d: "distinct (map v_id (vehicles fleet))"
    by (simp add: fleet_def car_def)
  have in4: "?c4 \<in> set (vehicles fleet)" and in1: "?c1 \<in> set (vehicles fleet)"
    by (simp_all add: fleet_def)
  have id4: "v_id ?c4 = ObjectId ''65000000000000000000c004''"
    and id1: "v_id ?c1 = ObjectId ''65000000000000000000c001''"
    by (simp_all add: car_def)
  have o4: "owner_or_org alice ?c4"
    by (simp add: car_def owner_or_org_def alice_def)
  have o1: "\<not> owner_or_org bob ?c1"
    by (simp add: car_def owner_or_org_def bob_def g1_def g2_def u1_def u2_def)
  have 1: "get_vehicle hex24 alice ''65000000000000000000c004'' fleet = Json ?c4"
    using vehicle_access [where st = fleet and v = ?c4 and p = alice and cast = hex24
        and vid = "''65000000000000000000c004''",
        THEN conjunct1] d in4 o4
    by (simp only: id4 hex24_lower; simp)
  have 2: "get_vehicle hex24 alice ''65000000000000000000C004'' fleet = Json ?c4"
    using vehicle_access [where st = fleet and v = ?c4 and p = alice and cast = hex24
        and vid = "''65000000000000000000C004''",
        THEN conjunct1] d in4 o4
    by (simp only: id4 hex24_lower; simp)
  have 3: "get_vehicle hex24 bob ''65000000000000000000c001'' fleet \<noteq> Json ?c1"
    using vehicle_access [where st = fleet and v = ?c1 and p = bob and cast = hex24
        and vid = "''65000000000000000000c001''",
        THEN conjunct1] d in1 o1
    by (simp only: id1 hex24_lower; simp)
  have 4: "get_vehicle hex24 alice ''abc'' fleet
             = Error 500 (internal_error ''Failed to retrieve vehicle'')"
    using vehicle_access [where p = alice and cast = hex24 and vid = "''abc''" and st = fleet,
        THEN conjunct2, THEN conjunct2, THEN conjunct1]
      hex24_refused(1)
    by blast
  have n: "\<not> truthy (rq_ownerId plain)" "\<not> truthy (rq_search plain)"
    by (simp_all add: plain_def truthy_def)
  have e: "\<not> truthy (rq_ownerId plain)
        \<and> page_of plain = Num 1 \<and> limit_of plain = Num 10 \<and> (1::int) \<le> 10 \<and> (10::int) < 2 ^ 53
        \<and> int (length (vehicles fleet)) \<le> 10
        \<and> (truthy (rq_search plain) \<longrightarrow> no_regex (template (rq_search plain)) \<noteq> None)"
    by (simp add: truthy_def page_of_def limit_of_def plain_def fleet_def)
  from vehicle_access [where st = fleet and p = alice and r = plain and rx = no_regex
      and l = 10 and cast = hex24,
        THEN conjunct2, THEN conjunct2, THEN conjunct2, THEN conjunct2, THEN conjunct2, THEN conjunct1, rule_format, OF e]
  obtain d' where j: "list_vehicles hex24 no_regex alice plain fleet = Json d'"
    and s: "set (map item_id (r_data d'))
               = v_id ` {w \<in> set (vehicles fleet). plainly_listed no_regex alice plain w}"
    by blast
  from vehicle_access [where st = fleet and p = alice and r = plain and rx = no_regex
      and d = d' and cast = hex24,
        THEN conjunct2, THEN conjunct2, THEN conjunct2, THEN conjunct2, THEN conjunct1] j n
  have t: "r_total d' = length (filter (plainly_listed no_regex alice plain) (vehicles fleet))"
    by blast
  have pf: "plainly_listed no_regex alice plain = (\<lambda>w. v_isActive w \<and> owner_or_org alice w)"
    by (rule ext) (simp add: plainly_listed_def n)
  have t3: "r_total d' = 3"
    unfolding t pf by (simp add: fleet_def car_def owner_or_org_def alice_def)
  have s3: "set (map item_id (r_data d'))
              = {ObjectId ''65000000000000000000c001'', ObjectId ''65000000000000000000c002'',
                 ObjectId ''65000000000000000000c003''}"
  proof -
    have l3: "map v_id (filter (\<lambda>w. v_isActive w \<and> owner_or_org alice w) (vehicles fleet))
                = [ObjectId ''65000000000000000000c001'', ObjectId ''65000000000000000000c002'',
                   ObjectId ''65000000000000000000c003'']"
      by (simp add: fleet_def car_def owner_or_org_def alice_def)
    have "v_id ` {w \<in> set (vehicles fleet). v_isActive w \<and> owner_or_org alice w}
            = set (map v_id (filter (\<lambda>w. v_isActive w \<and> owner_or_org alice w) (vehicles fleet)))"
      by simp
    then show ?thesis unfolding s pf l3 by simp
  qed
  have o: "rq_ownerId ?r = Some ''650000000000000000000002'' \<and> ''650000000000000000000002'' \<noteq> []
           \<and> hex24 ''650000000000000000000002'' = Inr u2"
    by (simp add: hex24_lower u2_def)
  from vehicle_access [where p = solo and r = ?r and rx = no_regex and cast = hex24
      and oid = "''650000000000000000000002''" and i = u2,
        THEN conjunct2, THEN conjunct2, THEN conjunct2, THEN conjunct2, THEN conjunct2, THEN conjunct2, rule_format, OF o]
  obtain q where q: "list_filter hex24 solo ?r = Inr q"
    and m: "\<forall>w. matches_rx no_regex q w \<longleftrightarrow> owner_listed no_regex solo u2 ?r w"
    by blast
  have "owner_listed no_regex solo u2 ?r ?c9"
    by (simp add: owner_listed_def n car_def solo_def)
  with m have 6: "matches_rx no_regex q ?c9" by blast
  from 1 2 3 4 j t3 s3 q 6 show ?thesis by blast
qed

text \<open>
  Against C1 as stated: a principal without an organization lists, through \<open>ownerId\<close>, a
  vehicle whose owner and organization are both another's; and the plain listing leaves
  out an inactive vehicle that the principal owns.
\<close>

theorem vehicle_access_counterexample:
  "ownerUserId (car ''65000000000000000000c003'' (Some u2) (Some g2) True) \<noteq> Some (p_id solo)
   \<and> orgId (car ''65000000000000000000c003'' (Some u2) (Some g2) True) \<noteq> p_orgId solo
   \<and> list_vehicles hex24 no_regex solo (plain \<lparr> rq_ownerId := Some ''650000000000000000000002'' \<rparr>)
        (garage [car ''65000000000000000000c003'' (Some u2) (Some g2) True])
      = Json \<lparr> r_data = [Form \<lparr> f_id = ObjectId ''65000000000000000000c003'',
                                f_make = Some ''Toyota'', f_model = Some ''Corolla'',
                                f_year = Some 2015, f_plate = Some ''KDA 123A'' \<rparr>],
               r_total = 1, r_page = Num 1, r_limit = Num 10, r_pages = Num 1 \<rparr>
   \<and> ownerUserId (car ''65000000000000000000c004'' (Some u1) (Some g1) False) = Some (p_id alice)
   \<and> list_vehicles hex24 no_regex alice plain
        (garage [car ''65000000000000000000c004'' (Some u1) (Some g1) False])
      = Json \<lparr> r_data = [], r_total = 0, r_page = Num 1, r_limit = Num 10, r_pages = Num 0 \<rparr>"
  by (simp add: list_vehicles_def list_filter_def by_owner_def access_def no_filter_def
      matches_rx_def matches_def eq_clause_def Vehicle_find_def Vehicle_countDocuments_def
      sort_createdAt_desc_def skip_limit_def skip_of_default
      page_of_def limit_of_def pages_of_Num hex24_lower template_def
      populate_def form_entry_def truthy_def plain_def garage_def car_def solo_def alice_def
      u1_def u2_def g1_def g2_def Let_def)

section \<open>Image generation\<close>

lemma take_eq_iff_prefix: "take (length t) s = t \<longleftrightarrow> (\<exists>post. s = t @ post)"
  by (metis append_eq_conv_conj append_take_drop_id)

text \<open>\<open>js_includes\<close> is the substring test.\<close>

lemma js_includes_iff: "js_includes s t \<longleftrightarrow> (\<exists>pre post. s = pre @ t @ post)"
proof (induction s)
  case Nil
  then show ?case by auto
next
  case (Cons c cs)
  have "(\<exists>pre post. c # cs = pre @ t @ post)
          \<longleftrightarrow> (\<exists>post. c # cs = t @ post) \<or> (\<exists>pre post. cs = pre @ t @ post)"
    (is "?L \<longleftrightarrow> ?P \<or> ?R")
  proof
    assume ?L
    then obtain pre post where e: "c # cs = pre @ t @ post" by blast
    show "?P \<or> ?R"
    proof (cases pre)
      case Nil
      with e show ?thesis by auto
    next
      case (Cons a pre')
      with e have "cs = pre' @ t @ post" by simp
      then show ?thesis by blast
    qed
  next
    assume "?P \<or> ?R"
    then show ?L
    proof
      assume ?P
      then obtain post where "c # cs = [] @ t @ post" by auto
      then show ?L by blast
    next
      assume ?R
      then obtain pre post where "cs = pre @ t @ post" by blast
      then have "c # cs = (c # pre) @ t @ post" by simp
      then show ?L by blast
    qed
  qed
  with Cons show ?case by (simp only: js_includes.simps take_eq_iff_prefix)
qed

text \<open>The handler on a request that names a vehicle id, with the filter spelt out.\<close>

lemma generate_image_unfold:
  "req_vehicleId b = Some vid \<Longrightarrow> cast vid = Inr i \<Longrightarrow>
   generate_image cast prov p b st =
     (case validationResult b of
        msg # _ \<Rightarrow> (Error 400 (validation_error msg), st)
      | [] \<Rightarrow>
         (case List.find (\<lambda>w. v_id w = i \<and> owner_or_org p w) (vehicles st) of
            None \<Rightarrow> (Error 404 (vehicle_not_found ''/api/v1/vehicles/generate-image''), st)
          | Some vehicle \<Rightarrow>
             (case prov \<lparr> g_make = req_make b, g_model = req_model b, g_year = req_year b,
                          g_color = or_else (js_or (req_color b) (v_color vehicle)) ''silver'' \<rparr> of
                Inl message \<Rightarrow> (generate_image_catch message, st)
              | Inr url \<Rightarrow>
                 (Json \<lparr> d_vehicleId = v_id vehicle, d_imageUrl = Some url \<rparr>,
                  st \<lparr> vehicles := Vehicle_save (vehicle \<lparr> imageUrl := Some url \<rparr>) (vehicles st),
                       auditLog := auditLog st @
                        [\<lparr> a_actorId = p_id p, a_orgId = p_orgId p,
                           a_action = ''vehicle_image_generated'',
                           a_target_type = ''vehicle'', a_target_id = req_vehicleId b,
                           a_target_make = req_make b, a_target_model = req_model b,
                           a_target_year = req_year b,
                           a_meta_imageUrl = url, a_meta_provider = ''openai-dalle'' \<rparr>] \<rparr>))))"
  by (simp add: generate_image_def cast_id_def Vehicle_findOne_def matches_access_id_fun Let_def
      split: list.splits option.splits sum.splits)

lemma generate_image_refused:
  "req_vehicleId b = Some vid \<Longrightarrow> cast vid = Inl e \<Longrightarrow>
   generate_image cast prov p b st =
     (case validationResult b of
        msg # _ \<Rightarrow> (Error 400 (validation_error msg), st)
      | [] \<Rightarrow> (generate_image_catch e, st))"
  by (simp add: generate_image_def cast_id_def split: list.splits)

lemma validationResult_body_for: "vid \<noteq> [] \<Longrightarrow> validationResult (body_for vid) = []"
  by (simp add: validationResult_def body_for_def notEmpty_def isNumeric_def isDigit_def)

text \<open>
  C2 (as amended). A request that names a vehicle id which denotes no vehicle of the
  collection that the principal has access to (no vehicle carries it, or only vehicles of
  others, or it denotes no ObjectId at all) leaves the store as it is: no vehicle changes
  and no audit entry is written. When the request fails validation the reply is the
  validation error (400) of the first failing field. When it passes validation and the id
  denotes an ObjectId, the reply is the not-found error (404). When it passes validation
  and the id denotes no ObjectId, the query's cast error is caught: the reply is the
  internal error (500), or the rate-limit error (429) when the message of the cast error
  contains \<open>quota\<close> or \<open>rate limit\<close>.
\<close>

theorem generate_image_not_found:
  "req_vehicleId b = Some vid
   \<and> \<not> (\<exists>v \<in> set (vehicles st). cast vid = Inr (v_id v) \<and> owner_or_org p v)
   \<longrightarrow> snd (generate_image cast prov p b st) = st
       \<and> (validationResult b \<noteq> [] \<longrightarrow>
            fst (generate_image cast prov p b st)
              = Error 400 (validation_error (hd (validationResult b))))
       \<and> (validationResult b = [] \<and> (\<exists>i. cast vid = Inr i) \<longrightarrow>
            fst (generate_image cast prov p b st)
              = Error 404 (vehicle_not_found ''/api/v1/vehicles/generate-image''))
       \<and> (\<forall>e. validationResult b = [] \<and> cast vid = Inl e \<longrightarrow>
            fst (generate_image cast prov p b st)
              = (if (\<exists>pre post. e = pre @ ''quota'' @ post)
                    \<or> (\<exists>pre post. e = pre @ ''rate limit'' @ post)
                 then Error 429 rate_limit_error
                 else Error 500 (internal_error ''Failed to generate vehicle image'')))"
proof
  assume a: "req_vehicleId b = Some vid
   \<and> \<not> (\<exists>v \<in> set (vehicles st). cast vid = Inr (v_id v) \<and> owner_or_org p v)"
  show "snd (generate_image cast prov p b st) = st
       \<and> (validationResult b \<noteq> [] \<longrightarrow>
            fst (generate_image cast prov p b st)
              = Error 400 (validation_error (hd (validationResult b))))
       \<and> (validationResult b = [] \<and> (\<exists>i. cast vid = Inr i) \<longrightarrow>
            fst (generate_image cast prov p b st)
              = Error 404 (vehicle_not_found ''/api/v1/vehicles/generate-image''))
       \<and> (\<forall>e. validationResult b = [] \<and> cast vid = Inl e \<longrightarrow>
            fst (generate_image cast prov p b st)
              = (if (\<exists>pre post. e = pre @ ''quota'' @ post)
                    \<or> (\<exists>pre post. e = pre @ ''rate limit'' @ post)
                 then Error 429 rate_limit_error
                 else Error 500 (internal_error ''Failed to generate vehicle image'')))"
  proof (cases "cast vid")
    case (Inl e)
    with a show ?thesis
      by (simp add: generate_image_refused generate_image_catch_def js_includes_iff
          split: list.splits)
  next
    case (Inr i)
    with a have "List.find (\<lambda>w. v_id w = i \<and> owner_or_org p w) (vehicles st) = None"
      by (auto simp: find_None_iff)
    with a Inr show ?thesis
      by (simp add: generate_image_unfold split: list.splits)
  qed
qed

lemma hex24_abc_message:
  "hex24 ''abc'' = Inl e \<Longrightarrow> \<not> js_includes e ''quota'' \<and> \<not> js_includes e ''rate limit''"
  by (auto simp: hex24_def)

theorem generate_image_not_found_witness:
  "generate_image hex24 (failing ''unused'') alice (body_for ''65000000000000000000ffff'') fleet
     = (Error 404 (vehicle_not_found ''/api/v1/vehicles/generate-image''), fleet)
   \<and> generate_image hex24 (failing ''unused'') bob (body_for ''65000000000000000000c001'') fleet
     = (Error 404 (vehicle_not_found ''/api/v1/vehicles/generate-image''), fleet)
   \<and> generate_image hex24 (failing ''unused'') alice (body_for ''abc'') fleet
     = (Error 500 (internal_error ''Failed to generate vehicle image''), fleet)"
proof -
  have 1: "\<not> (\<exists>v \<in> set (vehicles fleet).
              hex24 ''65000000000000000000ffff'' = Inr (v_id v) \<and> owner_or_org alice v)"
    by (simp add: hex24_lower fleet_def car_def)
  have 2: "\<not> (\<exists>v \<in> set (vehicles fleet).
              hex24 ''65000000000000000000c001'' = Inr (v_id v) \<and> owner_or_org bob v)"
    by (simp add: hex24_lower fleet_def car_def owner_or_org_def bob_def u1_def u2_def g1_def
        g2_def)
  obtain e where e: "hex24 ''abc'' = Inl e"
    using hex24_refused(1) by blast
  then have 3: "\<not> (\<exists>v \<in> set (vehicles fleet).
              hex24 ''abc'' = Inr (v_id v) \<and> owner_or_org alice v)"
    by simp
  have b: "req_vehicleId (body_for vid) = Some vid" for vid
    by (simp add: body_for_def)
  note t = generate_image_not_found [where cast = hex24 and prov = "failing ''unused''"
      and st = fleet, rule_format]
  have "generate_image hex24 (failing ''unused'') alice (body_for ''65000000000000000000ffff'') fleet
     = (Error 404 (vehicle_not_found ''/api/v1/vehicles/generate-image''), fleet)"
    using t [where b = "body_for ''65000000000000000000ffff''" and p = alice
        and vid = "''65000000000000000000ffff''"] 1
    by (simp add: b validationResult_body_for hex24_lower prod_eq_iff)
  moreover have "generate_image hex24 (failing ''unused'') bob (body_for ''65000000000000000000c001'') fleet
     = (Error 404 (vehicle_not_found ''/api/v1/vehicles/generate-image''), fleet)"
    using t [where b = "body_for ''65000000000000000000c001''" and p = bob
        and vid = "''65000000000000000000c001''"] 2
    by (simp add: b validationResult_body_for hex24_lower prod_eq_iff)
  moreover have "generate_image hex24 (failing ''unused'') alice (body_for ''abc'') fleet
     = (Error 500 (internal_error ''Failed to generate vehicle image''), fleet)"
  proof -
    let ?g = "generate_image hex24 (failing ''unused'') alice (body_for ''abc'') fleet"
    have v: "validationResult (body_for ''abc'') = []"
      by (simp add: validationResult_body_for)
    from t [where b = "body_for ''abc''" and p = alice and vid = "''abc''"] b 3
    have s: "snd ?g = fleet"
      and f: "\<forall>e. validationResult (body_for ''abc'') = [] \<and> hex24 ''abc'' = Inl e \<longrightarrow>
            fst ?g = (if (\<exists>pre post. e = pre @ ''quota'' @ post)
                       \<or> (\<exists>pre post. e = pre @ ''rate limit'' @ post)
                      then Error 429 rate_limit_error
                      else Error 500 (internal_error ''Failed to generate vehicle image''))"
      by blast+
    from f v e have "fst ?g = (if (\<exists>pre post. e = pre @ ''quota'' @ post)
                       \<or> (\<exists>pre post. e = pre @ ''rate limit'' @ post)
                      then Error 429 rate_limit_error
                      else Error 500 (internal_error ''Failed to generate vehicle image''))"
      by blast
    with hex24_abc_message [OF e]
    have "fst ?g = Error 500 (internal_error ''Failed to generate vehicle image'')"
      by (simp add: js_includes_iff)
    with s show ?thesis by (simp add: prod_eq_iff)
  qed
  ultimately show ?thesis by blast
qed

text \<open>
  Against C2 as stated: a request that names a vehicle id which does not exist, and that
  leaves \<open>make\<close> out, is answered with the validation error (400); and a request that
  passes validation and names \<open>abc\<close>, which is no vehicle's id, is answered with the
  internal error (500). Neither reply is not-found.
\<close>

theorem generate_image_not_found_counterexample:
  "ObjectId ''65000000000000000000ffff'' \<notin> v_id ` set (vehicles fleet)
   \<and> generate_image hex24 (failing ''unused'') alice
        ((body_for ''65000000000000000000ffff'') \<lparr> req_make := None \<rparr>) fleet
      = (Error 400
           \<lparr> e_type = ''validation_error'', e_title = ''Validation Error'',
             e_detail = ''Make is required'',
             e_instance = Some ''/api/v1/vehicles/generate-image'' \<rparr>, fleet)
   \<and> validationResult (body_for ''abc'') = []
   \<and> ObjectId ''abc'' \<notin> v_id ` set (vehicles fleet)
   \<and> generate_image hex24 (failing ''unused'') alice (body_for ''abc'') fleet
      = (Error 500
           \<lparr> e_type = ''internal_error'', e_title = ''Internal Server Error'',
             e_detail = ''Failed to generate vehicle image'', e_instance = None \<rparr>, fleet)"
proof -
  obtain e where e: "hex24 ''abc'' = Inl e"
    using hex24_refused(1) by blast
  have "generate_image hex24 (failing ''unused'') alice (body_for ''abc'') fleet
      = (Error 500 (internal_error ''Failed to generate vehicle image''), fleet)"
  proof -
    have i: "req_vehicleId (body_for ''abc'') = Some ''abc''"
      by (simp add: body_for_def)
    show ?thesis
      using hex24_abc_message [OF e]
      by (simp add: generate_image_refused [where cast = hex24, OF i e]
          validationResult_body_for generate_image_catch_def)
  qed
  then show ?thesis
    by (simp add: generate_image_def validationResult_def body_for_def notEmpty_def
        isNumeric_def isDigit_def validation_error_def internal_error_def fleet_def car_def)
qed

text \<open>
  C3. On a request that passes validation and resolves its vehicle, a provider failure
  whose message contains \<open>quota\<close> or \<open>rate limit\<close> (as written, in lower case) is
  answered with the rate-limit error (429), every other provider failure with the internal
  error (500); in both cases the store, and with it the vehicle record, is unchanged.
\<close>

theorem generate_image_provider_failure:
  assumes "validationResult b = []"
    and "req_vehicleId b = Some vid"
    and "cast vid = Inr i"
    and "List.find (\<lambda>w. v_id w = i \<and> owner_or_org p w) (vehicles st) = Some v"
    and "prov \<lparr> g_make = req_make b, g_model = req_model b, g_year = req_year b,
                g_color = or_else (js_or (req_color b) (v_color v)) ''silver'' \<rparr> = Inl msg"
  shows "generate_image cast prov p b st =
           (if (\<exists>pre post. msg = pre @ ''quota'' @ post)
               \<or> (\<exists>pre post. msg = pre @ ''rate limit'' @ post)
            then Error 429 rate_limit_error
            else Error 500 (internal_error ''Failed to generate vehicle image''), st)"
  using assms
  by (simp add: generate_image_unfold generate_image_catch_def js_includes_iff)

theorem generate_image_provider_failure_witness:
  "generate_image hex24 (failing ''OpenAI rate limit reached'') alice
       (body_for ''65000000000000000000c001'') fleet
     = (Error 429 rate_limit_error, fleet)
   \<and> generate_image hex24 (failing ''You exceeded your current quota'') alice
       (body_for ''65000000000000000000c001'') fleet
     = (Error 429 rate_limit_error, fleet)
   \<and> generate_image hex24 (failing ''Rate Limit reached'') alice
       (body_for ''65000000000000000000c001'') fleet
     = (Error 500 (internal_error ''Failed to generate vehicle image''), fleet)
   \<and> generate_image hex24 (failing ''connect ETIMEDOUT'') alice
       (body_for ''65000000000000000000c001'') fleet
     = (Error 500 (internal_error ''Failed to generate vehicle image''), fleet)"
proof -
  let ?c1 = "car ''65000000000000000000c001'' (Some u1) (Some g1) True"
  let ?b = "body_for ''65000000000000000000c001''"
  have v: "validationResult ?b = []"
    by (simp add: validationResult_body_for)
  have i: "req_vehicleId ?b = Some ''65000000000000000000c001''"
    by (simp add: body_for_def)
  have c: "hex24 ''65000000000000000000c001'' = Inr (ObjectId ''65000000000000000000c001'')"
    by (rule hex24_lower)
  have f: "List.find (\<lambda>w. v_id w = ObjectId ''65000000000000000000c001'' \<and> owner_or_org alice w)
             (vehicles fleet) = Some ?c1"
    by (simp add: fleet_def car_def owner_or_org_def alice_def)
  have g: "failing msg \<lparr> g_make = req_make ?b, g_model = req_model ?b, g_year = req_year ?b,
                g_color = or_else (js_or (req_color ?b) (v_color ?c1)) ''silver'' \<rparr> = Inl msg"
    for msg by (simp add: failing_def)
  have r: "generate_image hex24 (failing m) alice ?b fleet =
             (if js_includes m ''quota'' \<or> js_includes m ''rate limit''
              then Error 429 rate_limit_error
              else Error 500 (internal_error ''Failed to generate vehicle image''), fleet)" for m
    using generate_image_provider_failure [where prov = "failing m" and msg = m
        and cast = hex24, OF v i c f g]
    by (simp add: js_includes_iff)
  show ?thesis
    by (simp add: r)
qed

section \<open>Metrics\<close>

lemma Set_add_fold: "set (foldl Set_add s xs) = set s \<union> set xs"
  by (induction xs arbitrary: s) auto

lemma Set_add_distinct: "distinct s \<Longrightarrow> distinct (foldl Set_add s xs)"
  by (induction xs arbitrary: s) auto

lemma set_new_Set: "set (new_Set xs) = set xs"
  by (simp add: new_Set_def Set_add_fold)

lemma length_new_Set: "length (new_Set xs) = card (set xs)"
proof -
  have "distinct (new_Set xs)"
    using Set_add_distinct [of "[]" xs] by (simp add: new_Set_def)
  then show ?thesis by (metis distinct_card set_new_Set)
qed

lemma set_filter_Boolean: "set (filter_Boolean xs) = {s. Some s \<in> set xs \<and> s \<noteq> []}"
  by (induction xs) (auto simp: filter_Boolean_def split: option.splits)

lemma set_uniqueUsers:
  "set (uniqueUsers_of p st)
     = toString ` {u. \<exists>v \<in> set (vehicles st). owner_or_org p v \<and> ownerUserId v = Some u \<and> toString u \<noteq> []}"
  (is "_ = toString ` ?U")
proof -
  let ?V = "filter (owner_or_org p) (vehicles st)"
  let ?S = "{s. Some s \<in> (\<lambda>v. map_option toString (ownerUserId v)) ` set ?V \<and> s \<noteq> []}"
  have e: "set (uniqueUsers_of p st) = ?S"
    by (simp add: uniqueUsers_of_def set_new_Set set_filter_Boolean Vehicle_find_def
        matches_access_fun)
  have "?S = toString ` ?U"
  proof (intro set_eqI iffI)
    fix s assume "s \<in> ?S"
    then obtain v where v: "v \<in> set ?V" "Some s = map_option toString (ownerUserId v)" "s \<noteq> []"
      by blast
    then obtain u where u: "ownerUserId v = Some u" "s = toString u"
      by (cases "ownerUserId v") simp_all
    from v u have "u \<in> ?U" by auto
    with u show "s \<in> toString ` ?U" by blast
  next
    fix s assume "s \<in> toString ` ?U"
    then obtain u v where uv: "s = toString u" "v \<in> set (vehicles st)" "owner_or_org p v"
      "ownerUserId v = Some u" "toString u \<noteq> []" by blast
    then have "v \<in> set ?V" "Some s = map_option toString (ownerUserId v)" by simp_all
    then have "Some s \<in> (\<lambda>v. map_option toString (ownerUserId v)) ` set ?V" by (rule_tac image_eqI)
    with uv show "s \<in> ?S" by simp
  qed
  with e show ?thesis by simp
qed

lemma inj_toString: "inj toString"
  by (rule injI) (simp add: ObjectId.expand)

text \<open>
  C4 (as amended). For every principal the metrics reply carries three counts and the
  constant 4.6: \<open>totalCars\<close>, the number of vehicles under the access filter;
  \<open>totalUsers\<close>, the number of distinct owning-user identifiers among them (absent owners,
  and an identifier that renders as the empty string, left out); \<open>activeUsers\<close>, the
  number of active user documents whose identifier is one of those. The handler also
  counts the active vehicles under the access filter, and that count is no part of the
  reply.
\<close>

theorem metrics_reply:
  "metrics p st =
     Json \<lparr> totalUsers = card {u. \<exists>v \<in> set (vehicles st).
                            owner_or_org p v \<and> ownerUserId v = Some u \<and> toString u \<noteq> []},
            totalCars = length (filter (owner_or_org p) (vehicles st)),
            activeUsers = length (filter (\<lambda>u. u_isActive u \<and> toString (u_id u) \<noteq> [] \<and>
                            (\<exists>v \<in> set (vehicles st). owner_or_org p v \<and> ownerUserId v = Some (u_id u)))
                            (users st)),
            changePercentage = 46 / 10 \<rparr>
   \<and> activeCars_of p st = length (filter (\<lambda>v. owner_or_org p v \<and> v_isActive v) (vehicles st))"
proof -
  let ?U = "{u. \<exists>v \<in> set (vehicles st). owner_or_org p v \<and> ownerUserId v = Some u \<and> toString u \<noteq> []}"
  have 1: "length (uniqueUsers_of p st) = card ?U"
  proof -
    have "length (uniqueUsers_of p st) = card (set (uniqueUsers_of p st))"
      by (simp add: uniqueUsers_of_def length_new_Set set_new_Set)
    also have "\<dots> = card (toString ` ?U)" by (simp only: set_uniqueUsers)
    also have "\<dots> = card ?U" by (rule card_image) (rule inj_on_subset [OF inj_toString], simp)
    finally show ?thesis .
  qed
  have 2: "(toString (u_id u) \<in> set (uniqueUsers_of p st) \<and> u_isActive u)
        \<longleftrightarrow> (u_isActive u \<and> toString (u_id u) \<noteq> [] \<and>
                            (\<exists>v \<in> set (vehicles st). owner_or_org p v \<and> ownerUserId v = Some (u_id u)))" for u
    by (auto simp: set_uniqueUsers image_iff ObjectId.expand)
  have 3: "User_countDocuments_in_active (uniqueUsers_of p st) (users st)
        = length (filter (\<lambda>u. u_isActive u \<and> toString (u_id u) \<noteq> [] \<and>
                            (\<exists>v \<in> set (vehicles st). owner_or_org p v \<and> ownerUserId v = Some (u_id u)))
                            (users st))"
    unfolding User_countDocuments_in_active_def by (simp only: 2)
  show ?thesis
    by (simp add: metrics_def Let_def 1 3 Vehicle_countDocuments_def matches_access_fun
        activeCars_of_def matches_access_active_fun)
qed

theorem metrics_reply_witness:
  "(\<exists>n. metrics alice fleet
          = Json \<lparr> totalUsers = n, totalCars = 5, activeUsers = 1, changePercentage = 46 / 10 \<rparr>)
   \<and> (\<exists>n. metrics bob fleet
          = Json \<lparr> totalUsers = n, totalCars = 2, activeUsers = 0, changePercentage = 46 / 10 \<rparr>)"
  using metrics_reply [of alice fleet] metrics_reply [of bob fleet]
  by (simp add: fleet_def car_def member_def owner_or_org_def alice_def bob_def
      u1_def u2_def g1_def g2_def)

text \<open>
  Against C4 as stated: over five accessible vehicles, three of them active, the reply
  holds the numbers 2, 5, 1 and 4.6; the active vehicle count, 3, is not returned.
\<close>

theorem metrics_reply_counterexample:
  "activeCars_of alice fleet = 3
   \<and> metrics alice fleet
      = Json \<lparr> totalUsers = 2, totalCars = 5, activeUsers = 1, changePercentage = 46 / 10 \<rparr>"
  by (simp add: metrics_def activeCars_of_def uniqueUsers_of_def new_Set_def filter_Boolean_def
      User_countDocuments_in_active_def Vehicle_countDocuments_def Vehicle_find_def
      matches_def access_def no_filter_def eq_clause_def
      fleet_def car_def member_def alice_def u1_def u2_def g1_def Let_def)

section \<open>Listing by owner\<close>

text \<open>
  C5 (as amended). When the request supplies a non-empty \<open>ownerId\<close> that denotes an
  ObjectId, the filter of the listing has no \<open>$or\<close> clause, and it selects exactly the
  active vehicles whose owning user is that ObjectId, restricted to the caller's
  organization when the caller has one, and to the matches of the search clause when a
  search is given; the total of the reply counts these vehicles and every entry of its
  data stands for one of them. When the \<open>ownerId\<close> denotes no ObjectId, the reply is the
  internal error (500).
\<close>

theorem list_filter_ownerId:
  "rq_ownerId r = Some oid \<and> oid \<noteq> [] \<longrightarrow>
     (\<forall>i. cast oid = Inr i \<longrightarrow>
        (\<exists>q. list_filter cast p r = Inr q \<and> q_or q = None
           \<and> (\<forall>w. matches_rx rx q w \<longleftrightarrow>
                  v_isActive w \<and> ownerUserId w = Some i
                  \<and> (p_orgId p \<noteq> None \<longrightarrow> orgId w = p_orgId p)
                  \<and> (truthy (rq_search r) \<longrightarrow> search_clause rx w (template (rq_search r)))))
        \<and> (\<forall>d. list_vehicles cast rx p r st = Json d \<longrightarrow>
              r_total d = length (filter (owner_listed rx p i r) (vehicles st))
              \<and> set (map item_id (r_data d))
                  \<subseteq> v_id ` {w \<in> set (vehicles st). owner_listed rx p i r w}))
     \<and> (\<forall>e. cast oid = Inl e \<longrightarrow>
          list_vehicles cast rx p r st = Error 500 (internal_error ''Failed to retrieve vehicles''))"
proof (intro impI conjI allI)
  fix i
  assume a: "rq_ownerId r = Some oid \<and> oid \<noteq> []" and c: "cast oid = Inr i"
  let ?q = "(by_owner p i (access p \<lparr> q_isActive := Some True \<rparr>))
              \<lparr> q_and := (if truthy (rq_search r) then [template (rq_search r)] else []) \<rparr>"
  from a c have f: "list_filter cast p r = Inr ?q"
    by (simp add: list_filter_owner)
  have o: "q_or ?q = None"
    by (rule q_or_by_owner)
  have m: "\<forall>w. matches_rx rx ?q w \<longleftrightarrow>
                  v_isActive w \<and> ownerUserId w = Some i
                  \<and> (p_orgId p \<noteq> None \<longrightarrow> orgId w = p_orgId p)
                  \<and> (truthy (rq_search r) \<longrightarrow> search_clause rx w (template (rq_search r)))"
    by (rule allI) (rule matches_by_owner)
  from f o m show "\<exists>q. list_filter cast p r = Inr q \<and> q_or q = None
           \<and> (\<forall>w. matches_rx rx q w \<longleftrightarrow>
                  v_isActive w \<and> ownerUserId w = Some i
                  \<and> (p_orgId p \<noteq> None \<longrightarrow> orgId w = p_orgId p)
                  \<and> (truthy (rq_search r) \<longrightarrow> search_clause rx w (template (rq_search r))))"
    by blast
  have ol: "matches_rx rx ?q = owner_listed rx p i r"
    by (rule ext) (simp only: matches_by_owner owner_listed_def)
  fix d
  assume j: "list_vehicles cast rx p r st = Json d"
  from list_vehicles_range [OF f j]
  show "r_total d = length (filter (owner_listed rx p i r) (vehicles st))"
    and "set (map item_id (r_data d)) \<subseteq> v_id ` {w \<in> set (vehicles st). owner_listed rx p i r w}"
    by (simp_all only: ol)
next
  fix e
  assume a: "rq_ownerId r = Some oid \<and> oid \<noteq> []" and c: "cast oid = Inl e"
  then have "list_filter cast p r = Inl e"
    by (simp add: list_filter_owner)
  then show "list_vehicles cast rx p r st = Error 500 (internal_error ''Failed to retrieve vehicles'')"
    by (rule list_vehicles_refused)
qed

lemma hex24_u3: "hex24 ''65000000000000000000000B'' = Inr u3"
  by (simp add: u3_def hex24_def isHexDigit_def isRadixDigit_def digitValue_def lowerHex_def)

theorem list_filter_ownerId_witness:
  "(\<exists>q. list_filter hex24 alice (plain \<lparr> rq_ownerId := Some ''650000000000000000000002'' \<rparr>)
           = Inr q
       \<and> q_or q = None
       \<and> matches_rx no_regex q (car ''65000000000000000000c003'' (Some u2) (Some g1) True)
       \<and> \<not> matches_rx no_regex q (car ''65000000000000000000c001'' (Some u1) (Some g1) True)
       \<and> \<not> matches_rx no_regex q (car ''65000000000000000000c009'' (Some u2) (Some g2) True))
   \<and> (\<exists>q. list_filter hex24 solo (plain \<lparr> rq_ownerId := Some ''650000000000000000000002'' \<rparr>)
           = Inr q
       \<and> matches_rx no_regex q (car ''65000000000000000000c009'' (Some u2) (Some g2) True))
   \<and> (\<exists>q. list_filter hex24 alice (plain \<lparr> rq_ownerId := Some ''65000000000000000000000B'' \<rparr>)
           = Inr q
       \<and> matches_rx no_regex q (car ''65000000000000000000c007'' (Some u3) (Some g1) True))
   \<and> list_vehicles hex24 no_regex alice (plain \<lparr> rq_ownerId := Some ''xyz'' \<rparr>) fleet
       = Error 500 (internal_error ''Failed to retrieve vehicles'')"
proof -
  let ?r = "plain \<lparr> rq_ownerId := Some ''650000000000000000000002'' \<rparr>"
  let ?R = "plain \<lparr> rq_ownerId := Some ''65000000000000000000000B'' \<rparr>"
  let ?x = "plain \<lparr> rq_ownerId := Some ''xyz'' \<rparr>"
  have s: "\<not> truthy (rq_search plain)"
    by (simp add: plain_def truthy_def)
  have c2: "hex24 ''650000000000000000000002'' = Inr u2"
    by (simp add: hex24_lower u2_def)
  have or: "rq_ownerId ?r = Some ''650000000000000000000002'' \<and> ''650000000000000000000002'' \<noteq> []"
    and oR: "rq_ownerId ?R = Some ''65000000000000000000000B'' \<and> ''65000000000000000000000B'' \<noteq> []"
    and ox: "rq_ownerId ?x = Some ''xyz'' \<and> ''xyz'' \<noteq> []"
    by simp_all
  from list_filter_ownerId [where r = ?r and oid = "''650000000000000000000002''"
      and cast = hex24 and rx = no_regex and p = alice] or c2
  obtain qa where qa: "list_filter hex24 alice ?r = Inr qa" "q_or qa = None"
    "\<forall>w. matches_rx no_regex qa w \<longleftrightarrow>
                  v_isActive w \<and> ownerUserId w = Some u2
                  \<and> (p_orgId alice \<noteq> None \<longrightarrow> orgId w = p_orgId alice)
                  \<and> (truthy (rq_search ?r) \<longrightarrow> search_clause no_regex w (template (rq_search ?r)))"
    by blast
  from qa(3) have
    "matches_rx no_regex qa (car ''65000000000000000000c003'' (Some u2) (Some g1) True)"
    "\<not> matches_rx no_regex qa (car ''65000000000000000000c001'' (Some u1) (Some g1) True)"
    "\<not> matches_rx no_regex qa (car ''65000000000000000000c009'' (Some u2) (Some g2) True)"
    by (simp_all add: s car_def alice_def u1_def u2_def g1_def g2_def)
  with qa have 1: "\<exists>q. list_filter hex24 alice ?r = Inr q
       \<and> q_or q = None
       \<and> matches_rx no_regex q (car ''65000000000000000000c003'' (Some u2) (Some g1) True)
       \<and> \<not> matches_rx no_regex q (car ''65000000000000000000c001'' (Some u1) (Some g1) True)
       \<and> \<not> matches_rx no_regex q (car ''65000000000000000000c009'' (Some u2) (Some g2) True)"
    by blast
  from list_filter_ownerId [where r = ?r and oid = "''650000000000000000000002''"
      and cast = hex24 and rx = no_regex and p = solo] or c2
  obtain qs where qs: "list_filter hex24 solo ?r = Inr qs"
    "\<forall>w. matches_rx no_regex qs w \<longleftrightarrow>
                  v_isActive w \<and> ownerUserId w = Some u2
                  \<and> (p_orgId solo \<noteq> None \<longrightarrow> orgId w = p_orgId solo)
                  \<and> (truthy (rq_search ?r) \<longrightarrow> search_clause no_regex w (template (rq_search ?r)))"
    by blast
  from qs(2) have
    "matches_rx no_regex qs (car ''65000000000000000000c009'' (Some u2) (Some g2) True)"
    by (simp add: s car_def solo_def)
  with qs have 2: "\<exists>q. list_filter hex24 solo ?r = Inr q
       \<and> matches_rx no_regex q (car ''65000000000000000000c009'' (Some u2) (Some g2) True)"
    by blast
  from list_filter_ownerId [where r = ?R and oid = "''65000000000000000000000B''"
      and cast = hex24 and rx = no_regex and p = alice] oR hex24_u3
  obtain qb where qb: "list_filter hex24 alice ?R = Inr qb"
    "\<forall>w. matches_rx no_regex qb w \<longleftrightarrow>
                  v_isActive w \<and> ownerUserId w = Some u3
                  \<and> (p_orgId alice \<noteq> None \<longrightarrow> orgId w = p_orgId alice)
                  \<and> (truthy (rq_search ?R) \<longrightarrow> search_clause no_regex w (template (rq_search ?R)))"
    by blast
  from qb(2) have
    "matches_rx no_regex qb (car ''65000000000000000000c007'' (Some u3) (Some g1) True)"
    by (simp add: s car_def alice_def)
  with qb have 3: "\<exists>q. list_filter hex24 alice ?R = Inr q
       \<and> matches_rx no_regex q (car ''65000000000000000000c007'' (Some u3) (Some g1) True)"
    by blast
  from list_filter_ownerId [where r = ?x and oid = "''xyz''"
      and cast = hex24 and rx = no_regex and p = alice and st = fleet] ox hex24_refused(2)
  have 4: "list_vehicles hex24 no_regex alice ?x fleet
       = Error 500 (internal_error ''Failed to retrieve vehicles'')"
    by blast
  from 1 2 3 4 show ?thesis by blast
qed

text \<open>
  Against C5 as stated: an inactive vehicle whose owning user is the \<open>ownerId\<close> asked for,
  in the caller's organization, is not selected.
\<close>

theorem list_filter_ownerId_counterexample:
  "ownerUserId (car ''65000000000000000000c004'' (Some u2) (Some g1) False) = Some u2
   \<and> orgId (car ''65000000000000000000c004'' (Some u2) (Some g1) False) = p_orgId alice
   \<and> hex24 ''650000000000000000000002'' = Inr u2
   \<and> list_vehicles hex24 no_regex alice (plain \<lparr> rq_ownerId := Some ''650000000000000000000002'' \<rparr>)
        (garage [car ''65000000000000000000c004'' (Some u2) (Some g1) False])
      = Json \<lparr> r_data = [], r_total = 0, r_page = Num 1, r_limit = Num 10, r_pages = Num 0 \<rparr>"
  by (simp add: list_vehicles_def list_filter_def by_owner_def access_def no_filter_def
      matches_rx_def matches_def eq_clause_def Vehicle_find_def Vehicle_countDocuments_def
      sort_createdAt_desc_def skip_limit_def skip_of_default
      page_of_def limit_of_def pages_of_Num hex24_lower template_def
      truthy_def plain_def garage_def car_def alice_def u1_def u2_def g1_def Let_def)

section \<open>The client roster\<close>

lemma Map_set_new: "\<not> Map_has k m \<Longrightarrow> Map_set k v m = m @ [(k, v)]"
  by (induction m) (auto simp: Map_has_def)

text \<open>The loop body files the entry of \<open>client_of\<close> under its key, unless the key is taken.\<close>

lemma add_client_client_of:
  "add_client m pv =
     (case client_of pv of None \<Rightarrow> m
      | Some (k, c) \<Rightarrow> if Map_has k m then m else m @ [(k, c)])"
  by (auto simp: add_client_def client_of_def Let_def Map_set_new split: option.splits)

lemma client_of_id: "client_of pv = Some (k, c) \<Longrightarrow> c_id c = k"
  by (auto simp: client_of_def split: option.splits if_splits)

lemma key_of_Some: "key_of pv = Some k \<longleftrightarrow> (\<exists>c. client_of pv = Some (k, c))"
  by (cases "client_of pv") (auto simp: key_of_def)

lemma find_snoc:
  "List.find P (xs @ [x]) =
     (case List.find P xs of None \<Rightarrow> (if P x then Some x else None) | Some y \<Rightarrow> Some y)"
  by (induction xs) auto

lemma roster_inv:
  "distinct (map fst (foldl add_client [] pvs))
   \<and> fst ` set (foldl add_client [] pvs) = {k. \<exists>pv \<in> set pvs. key_of pv = Some k}
   \<and> (\<forall>(k, c) \<in> set (foldl add_client [] pvs).
        \<exists>pv. List.find (\<lambda>pv. key_of pv = Some k) pvs = Some pv \<and> client_of pv = Some (k, c))"
proof (induction pvs rule: rev_induct)
  case Nil
  then show ?case by simp
next
  case (snoc x pvs)
  let ?M = "foldl add_client [] pvs"
  from snoc have d: "distinct (map fst ?M)"
    and k: "fst ` set ?M = {k. \<exists>pv \<in> set pvs. key_of pv = Some k}"
    and f: "\<And>k c. (k, c) \<in> set ?M \<Longrightarrow>
        \<exists>pv. List.find (\<lambda>pv. key_of pv = Some k) pvs = Some pv \<and> client_of pv = Some (k, c)"
    by auto
  have old: "\<exists>pv. List.find (\<lambda>pv. key_of pv = Some k) (pvs @ [x]) = Some pv
                  \<and> client_of pv = Some (k, c)" if "(k, c) \<in> set ?M" for k c
    using f [OF that] by (auto simp: find_snoc)
  show ?case
  proof (cases "client_of x")
    case None
    then have m: "foldl add_client [] (pvs @ [x]) = ?M" and n: "key_of x = None"
      by (simp_all add: add_client_client_of key_of_def)
    from d k old show ?thesis
      unfolding m by (auto simp: n)
  next
    case (Some kc)
    obtain k' c' where kc: "kc = (k', c')" by (cases kc)
    with Some have x: "client_of x = Some (k', c')" and kx: "key_of x = Some k'"
      by (simp_all add: key_of_def)
    show ?thesis
    proof (cases "Map_has k' ?M")
      case True
      with x have m: "foldl add_client [] (pvs @ [x]) = ?M"
        by (simp add: add_client_client_of)
      from True have "k' \<in> fst ` set ?M" by (simp add: Map_has_def)
      with d k old show ?thesis
        unfolding m by (auto simp: kx)
    next
      case False
      with x have m: "foldl add_client [] (pvs @ [x]) = ?M @ [(k', c')]"
        by (simp add: add_client_client_of)
      from False have nk: "k' \<notin> fst ` set ?M" by (simp add: Map_has_def)
      with k have "\<forall>pv \<in> set pvs. key_of pv \<noteq> Some k'" by auto
      then have "List.find (\<lambda>pv. key_of pv = Some k') pvs = None"
        by (simp add: find_None_iff)
      then have new: "List.find (\<lambda>pv. key_of pv = Some k') (pvs @ [x]) = Some x"
        by (simp add: find_snoc kx)
      have 1: "distinct (map fst (?M @ [(k', c')]))"
        using d nk by simp
      have 2: "fst ` set (?M @ [(k', c')]) = {k. \<exists>pv \<in> set (pvs @ [x]). key_of pv = Some k}"
        using k kx by auto
      have 3: "\<forall>(k, c) \<in> set (?M @ [(k', c')]).
        \<exists>pv. List.find (\<lambda>pv. key_of pv = Some k) (pvs @ [x]) = Some pv \<and> client_of pv = Some (k, c)"
      proof -
        have "\<exists>pv. List.find (\<lambda>pv. key_of pv = Some k) (pvs @ [x]) = Some pv
                  \<and> client_of pv = Some (k, c)" if "(k, c) \<in> set (?M @ [(k', c')])" for k c
        proof -
          from that consider "(k, c) \<in> set ?M" | "k = k'" "c = c'" by auto
          then show ?thesis
          proof cases
            case 1
            then show ?thesis by (rule old)
          next
            case 2
            with new x show ?thesis by blast
          qed
        qed
        then show ?thesis by blast
      qed
      from 1 2 3 show ?thesis unfolding m by blast
    qed
  qed
qed

lemma length_filter_distinct_key:
  "distinct (map f xs) \<Longrightarrow>
     length (filter (\<lambda>x. f x = k) xs) = (if k \<in> f ` set xs then 1 else 0)"
  by (induction xs) (auto simp: image_iff)

text \<open>
  C6. For every organization the roster holds, for each key, exactly one entry when some
  vehicle of the organization is filed under that key and none otherwise, however many
  vehicles share the key; so the identifiers of its entries are pairwise distinct. The
  key of a vehicle with a registered owner is the owner's user id, the key of a vehicle
  with a named embedded owner is \<open>info_\<close> followed by the phone, or by the email when
  there is no phone. Each entry is the one built from the first vehicle, in the order of
  the query's result, that is filed under its key; later vehicles with that key leave the
  roster as it is.
\<close>

theorem clients_roster:
  assumes "p_orgId p = Some org"
  shows "\<exists>roster. clients p st = Json (roster, length roster)
     \<and> distinct (map c_id roster)
     \<and> (\<forall>k. length (filter (\<lambda>e. c_id e = k) roster)
              = (if \<exists>pv \<in> set (org_vehicles org st). key_of pv = Some k then 1 else 0))
     \<and> (\<forall>e \<in> set roster.
           \<exists>pv. List.find (\<lambda>pv. key_of pv = Some (c_id e)) (org_vehicles org st) = Some pv
                \<and> client_of pv = Some (c_id e, e))
     \<and> (\<forall>v owner. key_of (v, Some owner) = Some (toString (u_id owner)))
     \<and> (\<forall>v info. ownerInfo v = Some info \<and> truthy (oi_name info) \<longrightarrow>
           key_of (v, None) = Some (''info_'' @ template (js_or (oi_phone info) (oi_email info))))"
proof -
  let ?pvs = "org_vehicles org st"
  let ?M = "foldl add_client [] ?pvs"
  let ?roster = "Map_values ?M"
  from roster_inv [of ?pvs] have d: "distinct (map fst ?M)"
    and k: "fst ` set ?M = {k. \<exists>pv \<in> set ?pvs. key_of pv = Some k}"
    and f: "\<And>k c. (k, c) \<in> set ?M \<Longrightarrow>
        \<exists>pv. List.find (\<lambda>pv. key_of pv = Some k) ?pvs = Some pv \<and> client_of pv = Some (k, c)"
    by auto
  have id: "c_id c = k" if "(k, c) \<in> set ?M" for k c
    using f [OF that] client_of_id by blast
  then have ids: "map c_id ?roster = map fst ?M"
    by (auto simp: Map_values_def)
  have 1: "clients p st = Json (?roster, length ?roster)"
    using assms by (simp add: clients_def Let_def)
  have 2: "distinct (map c_id ?roster)"
    using d by (simp only: ids)
  have 3: "length (filter (\<lambda>e. c_id e = k) ?roster)
              = (if \<exists>pv \<in> set ?pvs. key_of pv = Some k then 1 else 0)" for k
  proof -
    have "c_id ` set ?roster = fst ` set ?M"
      using ids by (metis set_map)
    with k have "k \<in> c_id ` set ?roster \<longleftrightarrow> (\<exists>pv \<in> set ?pvs. key_of pv = Some k)"
      by simp
    with length_filter_distinct_key [OF 2, of k] show ?thesis by simp
  qed
  have 4: "\<exists>pv. List.find (\<lambda>pv. key_of pv = Some (c_id e)) ?pvs = Some pv
                \<and> client_of pv = Some (c_id e, e)" if "e \<in> set ?roster" for e
  proof -
    from that obtain k where m: "(k, e) \<in> set ?M" by (auto simp: Map_values_def)
    with id have "c_id e = k" by simp
    with f [OF m] show ?thesis by simp
  qed
  have 5: "key_of (v, Some owner) = Some (toString (u_id owner))" for v owner
    by (simp add: key_of_def client_of_def)
  have 6: "ownerInfo v = Some info \<and> truthy (oi_name info) \<longrightarrow>
           key_of (v, None) = Some (''info_'' @ template (js_or (oi_phone info) (oi_email info)))"
    for v info
    by (simp add: key_of_def client_of_def)
  from 1 2 3 4 5 6 show ?thesis by blast
qed

theorem clients_roster_witness:
  "clients alice yard =
     Json ([\<lparr> c_id = ''info_0700000001'', c_name = ''Chege'', c_email = [],
               c_phone = ''0700000001'', c_type = ''embedded'' \<rparr>,
            \<lparr> c_id = ''650000000000000000000001'', c_name = ''amina'',
               c_email = ''amina@example.com'', c_phone = [], c_type = ''registered'' \<rparr>], 2)
   \<and> length (org_vehicles g1 yard) = 4"
proof -
  have o: "p_orgId alice = Some g1" by (simp add: alice_def)
  have v: "org_vehicles g1 yard =
     [(walk_in_car ''65000000000000000000e001'' ''Chege'', None),
      (car ''65000000000000000000e002'' (Some u1) (Some g1) True, Some (member u1 ''amina'' True)),
      (walk_in_car ''65000000000000000000e003'' ''Chege K.'', None),
      (car ''65000000000000000000e004'' (Some u1) (Some g1) True, Some (member u1 ''amina'' True))]"
    by (simp add: org_vehicles_def Vehicle_find_def matches_def no_filter_def eq_clause_def
        populate_def yard_def walk_in_car_def car_def member_def)
  have c: "clients alice yard = Json (Map_values (foldl add_client [] (org_vehicles g1 yard)),
             length (Map_values (foldl add_client [] (org_vehicles g1 yard))))"
    by (simp add: clients_def o Let_def)
  from clients_roster [OF o, of yard] obtain roster where
    "clients alice yard = Json (roster, length roster)" by blast
  moreover have "Map_values (foldl add_client [] (org_vehicles g1 yard)) =
       [\<lparr> c_id = ''info_0700000001'', c_name = ''Chege'', c_email = [],
               c_phone = ''0700000001'', c_type = ''embedded'' \<rparr>,
            \<lparr> c_id = ''650000000000000000000001'', c_name = ''amina'',
               c_email = ''amina@example.com'', c_phone = [], c_type = ''registered'' \<rparr>]"
    unfolding v
    by (simp add: add_client_client_of client_of_def Map_has_def Map_values_def walk_in_car_def
        car_def member_def truthy_def js_or_def or_else_def template_def u1_def)
  ultimately show ?thesis
    using c v by simp
qed

section \<open>Pagination\<close>

text \<open>
  C7 (as amended). A listing request whose filter the datastore accepts (an \<open>ownerId\<close>,
  when given, denotes an ObjectId; the pattern of a search, when given, is accepted) and
  whose page and limit read as the positive integers \<open>pg\<close> and \<open>l\<close> with
  \<open>pg * l < 2^53\<close> skips \<open>(pg - 1) * l\<close> of the vehicles its filter matches, newest
  first, and returns the next \<open>l\<close> of them, so at most \<open>l\<close> records; \<open>total\<close> is the
  number of vehicles the same filter matches and \<open>pages\<close> is the ceiling of
  \<open>total / l\<close>. A page left out counts as 1 and a limit left out as 10. In particular,
  with \<open>page=2\<close> and \<open>limit=5\<close> over a collection in which the filter matches 12
  vehicles, the reply holds exactly 5 records, \<open>total\<close> 12 and \<open>pages\<close> 3; for a
  request with neither \<open>ownerId\<close> nor \<open>search\<close> these are 12 active vehicles that the
  principal owns or that are of the principal's organization.
\<close>

theorem pagination:
  "(list_filter cast p r = Inr q
      \<and> page_of r = Num pg \<and> limit_of r = Num l \<and> 1 \<le> pg \<and> 1 \<le> l \<and> pg * l < 2 ^ 53
      \<and> list_all (\<lambda>pat. rx pat \<noteq> None) (q_and q) \<longrightarrow>
      (\<exists>d. list_vehicles cast rx p r st = Json d
         \<and> r_data d = map (entry_of r) (map (populate (users st))
              (take (nat l) (drop (nat ((pg - 1) * l))
                 (sort_createdAt_desc (filter (matches_rx rx q) (vehicles st))))))
         \<and> length (r_data d) \<le> nat l
         \<and> r_total d = length (filter (matches_rx rx q) (vehicles st))
         \<and> r_pages d = Num \<lceil>rat_of_nat (r_total d) / rat_of_int l\<rceil>
         \<and> r_page d = Num pg \<and> r_limit d = Num l))
   \<and> (rq_page r = None \<longrightarrow> page_of r = Num 1)
   \<and> (rq_limit r = None \<longrightarrow> limit_of r = Num 10)
   \<and> (rq_page r = Some ''2'' \<and> rq_limit r = Some ''5''
      \<and> list_filter cast p r = Inr q
      \<and> list_all (\<lambda>pat. rx pat \<noteq> None) (q_and q)
      \<and> length (filter (matches_rx rx q) (vehicles st)) = 12 \<longrightarrow>
      (\<exists>d. list_vehicles cast rx p r st = Json d
         \<and> length (r_data d) = 5 \<and> r_total d = 12 \<and> r_pages d = Num 3))
   \<and> (rq_page r = Some ''2'' \<and> rq_limit r = Some ''5''
      \<and> \<not> truthy (rq_ownerId r) \<and> \<not> truthy (rq_search r)
      \<and> length (filter (\<lambda>v. v_isActive v \<and> owner_or_org p v) (vehicles st)) = 12 \<longrightarrow>
      (\<exists>d. list_vehicles cast rx p r st = Json d
         \<and> length (r_data d) = 5 \<and> r_total d = 12 \<and> r_pages d = Num 3))"
  (is "?A \<and> ?B \<and> ?C \<and> ?D \<and> ?E")
proof -
  have A: ?A
  proof
    let ?M = "filter (matches_rx rx q) (vehicles st)"
    assume a: "list_filter cast p r = Inr q
      \<and> page_of r = Num pg \<and> limit_of r = Num l \<and> 1 \<le> pg \<and> 1 \<le> l \<and> pg * l < 2 ^ 53
      \<and> list_all (\<lambda>pat. rx pat \<noteq> None) (q_and q)"
    then have "list_vehicles cast rx p r st =
       Json \<lparr> r_data = map (entry_of r) (map (populate (users st))
                (take (nat l) (drop (nat ((pg - 1) * l)) (sort_createdAt_desc ?M)))),
              r_total = length ?M, r_page = Num pg, r_limit = Num l,
              r_pages = Num \<lceil>rat_of_nat (length ?M) / rat_of_int l\<rceil> \<rparr>"
      by (intro list_vehicles_page) simp_all
    then show "\<exists>d. list_vehicles cast rx p r st = Json d
         \<and> r_data d = map (entry_of r) (map (populate (users st))
              (take (nat l) (drop (nat ((pg - 1) * l)) (sort_createdAt_desc ?M))))
         \<and> length (r_data d) \<le> nat l
         \<and> r_total d = length ?M
         \<and> r_pages d = Num \<lceil>rat_of_nat (r_total d) / rat_of_int l\<rceil>
         \<and> r_page d = Num pg \<and> r_limit d = Num l"
      by simp
  qed
  have B: ?B by (simp add: page_of_def)
  have C: ?C by (simp add: limit_of_def)
  have c: "\<lceil>rat_of_nat 12 / rat_of_int 5\<rceil> = (3::int)"
    using ceiling_divide_eq_div [of 12 5, where 'a = rat] by simp
  have page: "\<exists>d. list_vehicles cast rx p r st = Json d
         \<and> length (r_data d) = 5 \<and> r_total d = 12 \<and> r_pages d = Num 3"
    if pl: "rq_page r = Some ''2''" "rq_limit r = Some ''5''"
      and f: "list_filter cast p r = Inr q'"
      and rx: "list_all (\<lambda>pat. rx pat \<noteq> None) (q_and q')"
      and n: "length (filter (matches_rx rx q') (vehicles st)) = 12" for q'
  proof -
    let ?M = "filter (matches_rx rx q') (vehicles st)"
    from pl have "page_of r = Num 2" "limit_of r = Num 5"
      by (simp_all add: page_of_def limit_of_def parseInt_digit)
    with f rx have j: "list_vehicles cast rx p r st =
       Json \<lparr> r_data = map (entry_of r) (map (populate (users st))
                (take (nat 5) (drop (nat ((2 - 1) * 5)) (sort_createdAt_desc ?M)))),
              r_total = length ?M, r_page = Num 2, r_limit = Num 5,
              r_pages = Num \<lceil>rat_of_nat (length ?M) / rat_of_int 5\<rceil> \<rparr>"
      by (intro list_vehicles_page) simp_all
    from n have "length (sort_createdAt_desc ?M) = 12"
      by (simp add: length_sort_createdAt_desc)
    with j n c show ?thesis
      by simp
  qed
  have D: ?D
    using page [of q] by blast
  have E: ?E
  proof
    assume e: "rq_page r = Some ''2'' \<and> rq_limit r = Some ''5''
      \<and> \<not> truthy (rq_ownerId r) \<and> \<not> truthy (rq_search r)
      \<and> length (filter (\<lambda>v. v_isActive v \<and> owner_or_org p v) (vehicles st)) = 12"
    then have f: "list_filter cast p r = Inr (plain_filter p r)"
      by (simp add: list_filter_plain)
    from e have m: "matches_rx rx (plain_filter p r) = (\<lambda>v. v_isActive v \<and> owner_or_org p v)"
      by (intro ext) (simp add: matches_plain_filter)
    from e have rx: "list_all (\<lambda>pat. rx pat \<noteq> None) (q_and (plain_filter p r))"
      by (simp add: q_and_list_filter [OF f])
    from e show "\<exists>d. list_vehicles cast rx p r st = Json d
         \<and> length (r_data d) = 5 \<and> r_total d = 12 \<and> r_pages d = Num 3"
      by (intro page [OF _ _ f rx]) (simp_all add: m)
  qed
  from A B C D E show ?thesis by blast
qed

theorem pagination_witness:
  "(\<exists>d. list_vehicles hex24 no_regex alice
            (plain \<lparr> rq_page := Some ''2'', rq_limit := Some ''5'' \<rparr>) (garage twelve) = Json d
        \<and> length (r_data d) = 5 \<and> r_total d = 12 \<and> r_pages d = Num 3)
   \<and> (\<exists>d. list_vehicles hex24 no_regex alice plain (garage twelve) = Json d
        \<and> length (r_data d) = 10 \<and> r_total d = 12 \<and> r_pages d = Num 2
        \<and> r_page d = Num 1 \<and> r_limit d = Num 10)"
proof -
  let ?r = "plain \<lparr> rq_page := Some ''2'', rq_limit := Some ''5'' \<rparr>"
  let ?q = "plain_filter alice plain"
  have n: "length (filter (\<lambda>v. v_isActive v \<and> owner_or_org alice v) (vehicles (garage twelve)))
             = 12"
    by (simp add: garage_def twelve_def car_def owner_or_org_def alice_def)
  have r: "rq_page ?r = Some ''2'' \<and> rq_limit ?r = Some ''5''
      \<and> \<not> truthy (rq_ownerId ?r) \<and> \<not> truthy (rq_search ?r)"
    by (simp add: plain_def truthy_def)
  from pagination [where r = ?r and rx = no_regex and p = alice and st = "garage twelve"
      and cast = hex24, THEN conjunct2, THEN conjunct2, THEN conjunct2, THEN conjunct2] r n
  have 1: "\<exists>d. list_vehicles hex24 no_regex alice ?r (garage twelve) = Json d
        \<and> length (r_data d) = 5 \<and> r_total d = 12 \<and> r_pages d = Num 3"
    by blast
  have t: "\<not> truthy (rq_ownerId plain)" "\<not> truthy (rq_search plain)"
    by (simp_all add: plain_def truthy_def)
  have f: "list_filter hex24 alice plain = Inr ?q"
    by (simp add: list_filter_plain t)
  have m: "matches_rx no_regex ?q = (\<lambda>v. v_isActive v \<and> owner_or_org alice v)"
    by (intro ext) (simp add: matches_plain_filter t)
  have q: "list_all (\<lambda>pat. no_regex pat \<noteq> None) (q_and ?q)"
    by (simp add: q_and_list_filter [OF f] t)
  have c: "\<lceil>rat_of_nat 12 / rat_of_int 10\<rceil> = (2::int)"
    using ceiling_divide_eq_div [of 12 10, where 'a = rat] by simp
  have pl: "page_of plain = Num 1 \<and> limit_of plain = Num 10 \<and> (1::int) \<le> 1 \<and> (1::int) \<le> 10
      \<and> (1::int) * 10 < 2 ^ 53"
    by (simp add: page_of_def limit_of_def plain_def)
  from pagination [where r = plain and rx = no_regex and p = alice and st = "garage twelve"
      and cast = hex24 and q = ?q and pg = 1 and l = 10, THEN conjunct1] f pl q
  obtain d where d: "list_vehicles hex24 no_regex alice plain (garage twelve) = Json d"
    "r_data d = map (entry_of plain) (map (populate (users (garage twelve)))
              (take (nat 10) (drop (nat ((1 - 1) * 10))
                 (sort_createdAt_desc (filter (matches_rx no_regex ?q)
                    (vehicles (garage twelve)))))))"
    "r_total d = length (filter (matches_rx no_regex ?q) (vehicles (garage twelve)))"
    "r_pages d = Num \<lceil>rat_of_nat (r_total d) / rat_of_int 10\<rceil>"
    "r_page d = Num 1" "r_limit d = Num 10"
    by blast
  have "length (r_data d) = 10"
    unfolding d(2) m by (simp add: length_sort_createdAt_desc n)
  moreover have "r_total d = 12" unfolding d(3) m by (simp add: n)
  moreover from this have "r_pages d = Num 2" unfolding d(4) using c by simp
  ultimately have 2: "\<exists>d. list_vehicles hex24 no_regex alice plain (garage twelve) = Json d
        \<and> length (r_data d) = 10 \<and> r_total d = 12 \<and> r_pages d = Num 2
        \<and> r_page d = Num 1 \<and> r_limit d = Num 10"
    using d by blast
  from 1 2 show ?thesis by blast
qed

text \<open>
  Against C7 as stated, which speaks of every listing request and of 12 accessible
  vehicles. With \<open>limit=0\<close> the listing returns every vehicle the filter matches, here 3
  records where the limit is 0, and \<open>pages\<close> is infinite. With \<open>page=2\<close> and
  \<open>limit=5\<close> over twelve vehicles that the principal owns, eight of them inactive, the
  reply holds no record, \<open>total\<close> 4 and \<open>pages\<close> 1.
\<close>

theorem pagination_counterexample:
  "(\<exists>d. list_vehicles hex24 no_regex alice (plain \<lparr> rq_limit := Some ''0'' \<rparr>) fleet = Json d
        \<and> length (r_data d) = 3
        \<and> set (map item_id (r_data d))
            = {ObjectId ''65000000000000000000c001'', ObjectId ''65000000000000000000c002'',
               ObjectId ''65000000000000000000c003''}
        \<and> r_total d = 3 \<and> r_page d = Num 1 \<and> r_limit d = Num 0 \<and> r_pages d = Infinity)
   \<and> length (filter (owner_or_org alice) dozen) = 12
   \<and> list_vehicles hex24 no_regex alice (plain \<lparr> rq_page := Some ''2'', rq_limit := Some ''5'' \<rparr>)
        (garage dozen)
      = Json \<lparr> r_data = [], r_total = 4, r_page = Num 2, r_limit = Num 5, r_pages = Num 1 \<rparr>"
proof -
  have s: "skip_of (Num 2) (Num 5) = Num 5"
    using skip_of_exact [of 2 5] by simp
  have 1: "\<exists>d. list_vehicles hex24 no_regex alice (plain \<lparr> rq_limit := Some ''0'' \<rparr>) fleet = Json d
        \<and> length (r_data d) = 3
        \<and> set (map item_id (r_data d))
            = {ObjectId ''65000000000000000000c001'', ObjectId ''65000000000000000000c002'',
               ObjectId ''65000000000000000000c003''}
        \<and> r_total d = 3 \<and> r_page d = Num 1 \<and> r_limit d = Num 0 \<and> r_pages d = Infinity"
    by (simp add: list_vehicles_def list_filter_def access_def no_filter_def
      matches_rx_def matches_def eq_clause_def Vehicle_find_def Vehicle_countDocuments_def
      sort_createdAt_desc_def skip_limit_def skip_of_none parseInt_digit
      page_of_def limit_of_def pages_of_def item_id_def list_entry_def populate_def
      truthy_def plain_def fleet_def car_def alice_def u1_def u2_def g1_def Let_def)
  have 2: "length (filter (owner_or_org alice) dozen) = 12"
    by (simp add: dozen_def car_def owner_or_org_def alice_def)
  have 3: "list_vehicles hex24 no_regex alice
        (plain \<lparr> rq_page := Some ''2'', rq_limit := Some ''5'' \<rparr>) (garage dozen)
      = Json \<lparr> r_data = [], r_total = 4, r_page = Num 2, r_limit = Num 5, r_pages = Num 1 \<rparr>"
    by (simp add: list_vehicles_def list_filter_def access_def no_filter_def
      matches_rx_def matches_def eq_clause_def Vehicle_find_def Vehicle_countDocuments_def
      sort_createdAt_desc_def skip_limit_def s parseInt_digit
      page_of_def limit_of_def pages_of_Num
      truthy_def plain_def garage_def dozen_def car_def alice_def u1_def g1_def Let_def)
  from 1 2 3 show ?thesis by blast
qed

end
